theory Spec2Isabelle
  imports Complex_Main "HOL-Library.AList"
begin

section \<open>Python strings\<close>

text \<open>
  A Python \<open>str\<close> is a sequence of Unicode code points, here a list of natural numbers;
  \<open>u\<close> writes a literal of the program. The string methods the program calls are written
  out below, each named after the method it stands for. The selectors and attribute names
  handed to the browser driver are constants of the program and stay character strings.
\<close>

type_synonym pystr = "nat list"

definition u :: "string \<Rightarrow> pystr" where
  "u s = map of_char s"

definition is_space :: "nat \<Rightarrow> bool" where
  \<comment> \<open>\<open>str.isspace\<close> on one code point, which is also what \<open>str.strip()\<close> removes\<close>
  "is_space c \<longleftrightarrow>
     c \<in> set [0x09, 0x0A, 0x0B, 0x0C, 0x0D, 0x1C, 0x1D, 0x1E, 0x1F, 0x20, 0x85, 0xA0,
              0x1680, 0x2000, 0x2001, 0x2002, 0x2003, 0x2004, 0x2005, 0x2006, 0x2007,
              0x2008, 0x2009, 0x200A, 0x2028, 0x2029, 0x202F, 0x205F, 0x3000]"

definition rstrip_chars :: "(nat \<Rightarrow> bool) \<Rightarrow> pystr \<Rightarrow> pystr" where
  "rstrip_chars P s = rev (dropWhile P (rev s))"

definition strip :: "pystr \<Rightarrow> pystr" where
  \<comment> \<open>\<open>s.strip()\<close>\<close>
  "strip s = rstrip_chars is_space (dropWhile is_space s)"

definition rstrip_slash :: "pystr \<Rightarrow> pystr" where
  \<comment> \<open>\<open>s.rstrip('/')\<close>: every trailing slash goes\<close>
  "rstrip_slash s = rstrip_chars (\<lambda>c. c = 0x2F) s"

definition remove_char :: "nat \<Rightarrow> pystr \<Rightarrow> pystr" where
  \<comment> \<open>\<open>s.replace(c, '')\<close> for a single character \<open>c\<close>\<close>
  "remove_char c s = filter (\<lambda>d. d \<noteq> c) s"

definition startswith :: "pystr \<Rightarrow> pystr \<Rightarrow> bool" where
  \<comment> \<open>\<open>s.startswith(p)\<close>\<close>
  "startswith s p \<longleftrightarrow> take (length p) s = p"

fun contains :: "pystr \<Rightarrow> pystr \<Rightarrow> bool" where
  \<comment> \<open>\<open>p in s\<close>\<close>
  "contains [] p = (p = [])"
| "contains (c # s) p = (startswith (c # s) p \<or> contains s p)"

definition rsplit_space1 :: "pystr \<Rightarrow> pystr list" where
  \<comment> \<open>\<open>s.rsplit(' ', 1)\<close>: at most one split, at the last blank\<close>
  "rsplit_space1 s =
     (if 0x20 \<in> set s
      then [rev (tl (dropWhile (\<lambda>c. c \<noteq> 0x20) (rev s))),
            rev (takeWhile (\<lambda>c. c \<noteq> 0x20) (rev s))]
      else [s])"

section \<open>The scraper's pure methods\<close>

definition extract_sku_from_name :: "pystr \<Rightarrow> pystr \<times> pystr" where
  "extract_sku_from_name item_name =
     (case rsplit_space1 item_name of
        [description, sku] \<Rightarrow> (strip description, rstrip_slash (strip sku))
      | _ \<Rightarrow> (item_name, []))"

definition determine_website :: "pystr \<Rightarrow> pystr" where
  "determine_website sku =
     (if startswith sku (u ''J'') then u ''justkampers'' else u ''heritage'')"

section \<open>Exceptions\<close>

text \<open>
  A computation that may raise returns \<open>exn + 'a\<close>, with \<open>Inl\<close> the exception raised.
  \<open>WebDriverException\<close> stands for any exception of the browser driver other than the two
  the program names, \<open>CsvError\<close> for \<open>csv.Error\<close>.
\<close>

datatype exn =
    NoSuchElementException
  | TimeoutException
  | WebDriverException
  | ValueError
  | ZeroDivisionError
  | IndexError
  | CsvError

type_synonym 'a res = "exn + 'a"

definition and_then :: "'a res \<Rightarrow> ('a \<Rightarrow> 'b res) \<Rightarrow> 'b res" where
  "and_then m f = (case m of Inl e \<Rightarrow> Inl e | Inr x \<Rightarrow> f x)"

section \<open>Python floats\<close>

text \<open>
  A Python \<open>float\<close> is an IEEE 754 double. \<open>Fin x\<close> is the double of value \<open>x\<close>, with
  \<open>Fin 0\<close> the positive zero; \<open>NegZero\<close> is the negative zero. An operation computes the
  exact result and rounds it to the nearest double, ties to the even significand:
  53 bits, the least exponent -1022 (below it the spacing stays \<open>pow2 (- 1074)\<close>), and a
  rounded magnitude of \<open>2 ^ 1024\<close> or more is an infinity.
\<close>

datatype pyfloat = Fin real | NegZero | PInf | NInf | NaN

definition pow2 :: "int \<Rightarrow> real" where
  "pow2 k = (if 0 \<le> k then 2 ^ nat k else 1 / 2 ^ nat (- k))"

fun halvings :: "nat \<Rightarrow> real \<Rightarrow> nat" where
  \<comment> \<open>how often \<open>x\<close> is halved before it is below 2, at most \<open>k\<close> times\<close>
  "halvings k x = (if k = 0 \<or> x < 2 then 0 else Suc (halvings (k - 1) (x / 2)))"

fun doublings :: "nat \<Rightarrow> real \<Rightarrow> nat" where
  \<comment> \<open>how often \<open>x\<close> is doubled before it is 1 or more, at most \<open>k\<close> times\<close>
  "doublings k x = (if k = 0 \<or> 1 \<le> x then 0 else Suc (doublings (k - 1) (x * 2)))"

definition exponent_of :: "real \<Rightarrow> int" where
  \<comment> \<open>the binary exponent of a positive \<open>x\<close>, cut off at 1100 either way\<close>
  "exponent_of x = (if 1 \<le> x then int (halvings 1100 x) else - int (doublings 1100 x))"

definition round_half_even :: "real \<Rightarrow> int" where
  "round_half_even n =
     (let f = \<lfloor>n\<rfloor>; r = n - of_int f in
      if r < 1 / 2 then f else if 1 / 2 < r then f + 1 else if even f then f else f + 1)"

definition round_magnitude :: "real \<Rightarrow> real" where
  \<comment> \<open>a positive \<open>a\<close> rounded to 53 bits, exponent unbounded above\<close>
  "round_magnitude a =
     (let e = max (exponent_of a) (- 1022); q = pow2 (e - 52) in
      of_int (round_half_even (a / q)) * q)"

definition round_double :: "bool \<Rightarrow> real \<Rightarrow> pyfloat" where
  \<comment> \<open>the double nearest to the number of magnitude \<open>a\<close> and sign \<open>neg\<close>\<close>
  "round_double neg a =
     (let v = (if a = 0 then 0 else round_magnitude a) in
      if 2 ^ 1024 \<le> v then (if neg then NInf else PInf)
      else if v = 0 then (if neg then NegZero else Fin 0)
      else Fin (if neg then - v else v))"

definition fval :: "pyfloat \<Rightarrow> real" where
  \<comment> \<open>the value of a finite float\<close>
  "fval a = (case a of Fin x \<Rightarrow> x | _ \<Rightarrow> 0)"

definition is_inf :: "pyfloat \<Rightarrow> bool" where
  "is_inf a \<longleftrightarrow> a = PInf \<or> a = NInf"

definition is_zero :: "pyfloat \<Rightarrow> bool" where
  "is_zero a \<longleftrightarrow> a = Fin 0 \<or> a = NegZero"

definition negative :: "pyfloat \<Rightarrow> bool" where
  \<comment> \<open>the sign bit of a float that is not a NaN\<close>
  "negative a \<longleftrightarrow> (case a of Fin x \<Rightarrow> x < 0 | NegZero \<Rightarrow> True | NInf \<Rightarrow> True | _ \<Rightarrow> False)"

definition float_sub :: "pyfloat \<Rightarrow> pyfloat \<Rightarrow> pyfloat" where
  \<comment> \<open>\<open>a - b\<close>\<close>
  "float_sub a b =
     (if a = NaN \<or> b = NaN then NaN
      else if a = PInf then (if b = PInf then NaN else PInf)
      else if a = NInf then (if b = NInf then NaN else NInf)
      else if b = PInf then NInf
      else if b = NInf then PInf
      else
        let d = fval a - fval b in
        if d = 0 then (if a = NegZero \<and> b = Fin 0 then NegZero else Fin 0)
        else round_double (d < 0) \<bar>d\<bar>)"

definition float_div :: "pyfloat \<Rightarrow> pyfloat \<Rightarrow> pyfloat" where
  \<comment> \<open>the quotient \<open>a / b\<close> for a divisor that is not zero\<close>
  "float_div a b =
     (if a = NaN \<or> b = NaN then NaN
      else if is_inf a then
        (if is_inf b then NaN else if negative a \<noteq> negative b then NInf else PInf)
      else if is_inf b then (if negative a \<noteq> negative b then NegZero else Fin 0)
      else round_double (negative a \<noteq> negative b) \<bar>fval a / fval b\<bar>)"

definition float_mul :: "pyfloat \<Rightarrow> pyfloat \<Rightarrow> pyfloat" where
  \<comment> \<open>\<open>a * b\<close>\<close>
  "float_mul a b =
     (if a = NaN \<or> b = NaN then NaN
      else if is_inf a \<or> is_inf b then
        (if is_zero a \<or> is_zero b then NaN
         else if negative a \<noteq> negative b then NInf else PInf)
      else round_double (negative a \<noteq> negative b) \<bar>fval a * fval b\<bar>)"

definition float_abs :: "pyfloat \<Rightarrow> pyfloat" where
  \<comment> \<open>\<open>abs(a)\<close>\<close>
  "float_abs a =
     (case a of Fin x \<Rightarrow> Fin \<bar>x\<bar> | NegZero \<Rightarrow> Fin 0 | NInf \<Rightarrow> PInf | PInf \<Rightarrow> PInf | NaN \<Rightarrow> NaN)"

definition float_gt :: "pyfloat \<Rightarrow> pyfloat \<Rightarrow> bool" where
  \<comment> \<open>\<open>a > b\<close>\<close>
  "float_gt a b \<longleftrightarrow>
     (if a = NaN \<or> b = NaN then False
      else if a = PInf then b \<noteq> PInf
      else if a = NInf then False
      else if b = PInf then False
      else if b = NInf then True
      else fval b < fval a)"

definition py_truediv :: "pyfloat \<Rightarrow> pyfloat \<Rightarrow> pyfloat res" where
  \<comment> \<open>\<open>a / b\<close>, which raises on a zero divisor of either sign\<close>
  "py_truediv a b = (if is_zero b then Inl ZeroDivisionError else Inr (float_div a b))"

definition literal_0_01 :: pyfloat where
  \<comment> \<open>the literal \<open>0.01\<close>: the double nearest to one hundredth\<close>
  "literal_0_01 = round_double False (1 / 100)"

section \<open>Built-ins and the browser\<close>

text \<open>
  The built-ins \<open>float(s)\<close> and \<open>str(x)\<close>, the method \<open>s.upper()\<close> and the class \<open>\d\<close> of
  the module \<open>re\<close> belong to the interpreter and its Unicode tables, not to the program,
  and are parameters of the model.
\<close>

record builtins =
  py_float :: "pystr \<Rightarrow> pyfloat res"
  py_str :: "pyfloat \<Rightarrow> pystr"
  py_upper :: "pystr \<Rightarrow> pystr"
  re_digit :: "nat \<Rightarrow> bool"

text \<open>
  The browser is the program's environment. A session holds what the driver answers during
  one lookup: every call of the driver that the program makes is a field, and every call
  may raise. Pauses, log lines and the dismissal of the cookie banner (whose exceptions are
  all swallowed) have no part in what a lookup returns and are left out.
\<close>

record element =
  el_text :: "pystr res"
  el_attr :: "string \<Rightarrow> pystr option res"
  el_parent :: "(string \<Rightarrow> pystr option res) res"
  el_click :: "(string \<Rightarrow> pystr res res) res"

text \<open>
  \<open>el_text\<close> is \<open>e.text\<close>, \<open>el_attr\<close> is \<open>e.get_attribute(name)\<close>, \<open>el_parent\<close> is
  \<open>e.find_element(By.XPATH, "..")\<close> with the \<open>get_attribute\<close> of the parent, and \<open>el_click\<close>
  is \<open>e.click()\<close>, giving the page the driver shows afterwards: \<open>driver.find_element(sel)\<close>
  and the \<open>text\<close> of what it finds.
\<close>

record product =
  prod_texts :: "string \<Rightarrow> pystr res list res"
  prod_find :: "string \<Rightarrow> element res"

text \<open>
  \<open>prod_texts\<close> is \<open>p.find_elements(sel)\<close> with the \<open>text\<close> of each element found,
  \<open>prod_find\<close> is \<open>p.find_element(sel)\<close>.
\<close>

record session =
  start_driver :: "unit res"
  driver_get :: "pystr \<Rightarrow> unit res"
  wait_products_grid :: "unit res"
  find_products :: "string \<Rightarrow> product list res"

definition truthy :: "pystr option \<Rightarrow> bool" where
  \<comment> \<open>the truth value of a value that is \<open>None\<close> or a \<open>str\<close>\<close>
  "truthy a \<longleftrightarrow> (case a of None \<Rightarrow> False | Some s \<Rightarrow> s \<noteq> [])"

definition price_char :: "builtins \<Rightarrow> nat \<Rightarrow> bool" where
  \<comment> \<open>the class \<open>[\d,]\<close>\<close>
  "price_char P c \<longleftrightarrow> re_digit P c \<or> c = 0x2C"

definition price_match :: "builtins \<Rightarrow> pystr \<Rightarrow> pystr option" where
  \<comment> \<open>\<open>re.search(r'[\d,]+\.?\d*', t)\<close>, the matched text\<close>
  "price_match P t =
     (let t' = dropWhile (\<lambda>c. \<not> price_char P c) t in
      if t' = [] then None
      else
        let a = takeWhile (price_char P) t';
            r = dropWhile (price_char P) t';
            d = (if startswith r (u ''.'') then u ''.'' else []);
            f = takeWhile (re_digit P) (drop (length d) r)
        in Some (a @ d @ f))"

definition parse_price :: "builtins \<Rightarrow> pystr \<Rightarrow> pyfloat option res" where
  \<comment> \<open>the match, if any, without its commas, as a float\<close>
  "parse_price P t =
     (case price_match P t of
        None \<Rightarrow> Inr None
      | Some m \<Rightarrow> and_then (py_float P (remove_char 0x2C m)) (\<lambda>price. Inr (Some price)))"

definition catch_no_such_element :: "'a option res \<Rightarrow> 'a option res" where
  \<comment> \<open>\<open>except NoSuchElementException: continue\<close>\<close>
  "catch_no_such_element m =
     (case m of Inl NoSuchElementException \<Rightarrow> Inr None | _ \<Rightarrow> m)"

definition catch_all :: "'a option res \<Rightarrow> 'a option res" where
  \<comment> \<open>\<open>except Exception: continue\<close>\<close>
  "catch_all m = (case m of Inl e \<Rightarrow> Inr None | Inr r \<Rightarrow> Inr r)"

fun first_result :: "('a \<Rightarrow> 'b option res) \<Rightarrow> 'a list \<Rightarrow> 'b option res" where
  \<comment> \<open>\<open>for x in xs:\<close> return what \<open>f x\<close> finds, go on when it finds nothing\<close>
  "first_result f [] = Inr None"
| "first_result f (x # xs) =
     (case f x of
        Inl e \<Rightarrow> Inl e
      | Inr (Some v) \<Rightarrow> Inr (Some v)
      | Inr None \<Rightarrow> first_result f xs)"

definition page_price ::
  "builtins \<Rightarrow> (string \<Rightarrow> pystr res res) \<Rightarrow> string \<Rightarrow> pyfloat option res" where
  \<comment> \<open>one selector on the product page, the same in both adapters\<close>
  "page_price P page selector =
     catch_no_such_element
       (and_then (page selector) (\<lambda>price_element.
        and_then price_element (\<lambda>price_text. parse_price P price_text)))"

section \<open>The JustKampers adapter\<close>

definition jk_price_selectors :: "string list" where
  "jk_price_selectors =
     [''span.price'',
      ''span[data-price-type='' @ [CHR 0x27] @ ''finalPrice'' @ [CHR 0x27] @ '']'',
      ''div.price-box span.price'',
      ''span.price-wrapper span.price'']"

fun first_label :: "pystr res list \<Rightarrow> pystr res" where
  \<comment> \<open>the first label whose stripped text is not empty, \<open>""\<close> when there is none\<close>
  "first_label [] = Inr []"
| "first_label (label # labels) =
     and_then label (\<lambda>t.
       let label_text = strip t in
       if label_text \<noteq> [] then Inr label_text else first_label labels)"

definition jk_product_sku :: "product \<Rightarrow> pystr res" where
  "jk_product_sku p =
     and_then (prod_texts p ''div.amlabel-text'') (\<lambda>sku_labels. first_label sku_labels)"

definition jk_sku_matches :: "builtins \<Rightarrow> pystr \<Rightarrow> pystr \<Rightarrow> bool" where
  \<comment> \<open>\<open>product_sku.upper() == search_sku_normalized\<close>, for the \<open>sku\<close> the adapter was given\<close>
  "jk_sku_matches P product_sku sku \<longleftrightarrow> py_upper P product_sku = py_upper P (strip sku)"

definition jk_listing_price :: "builtins \<Rightarrow> product \<Rightarrow> string \<Rightarrow> pyfloat option res" where
  \<comment> \<open>one selector on the matched entry of the result list\<close>
  "jk_listing_price P p selector =
     catch_no_such_element
       (and_then (prod_find p selector) (\<lambda>price_element.
        and_then (el_attr price_element ''data-price-amount'') (\<lambda>price_amount.
          if truthy price_amount
          then and_then (py_float P (the price_amount)) (\<lambda>price. Inr (Some price))
          else
            and_then (el_text price_element) (\<lambda>price_text.
              if price_text \<noteq> [] then parse_price P price_text else Inr None))))"

definition jk_product_page :: "builtins \<Rightarrow> product \<Rightarrow> pyfloat option res" where
  \<comment> \<open>the click through to the product page and the selectors tried there\<close>
  "jk_product_page P p =
     and_then (prod_find p ''a.product-item-photo, a.product-item-link'') (\<lambda>product_link.
     and_then (el_click product_link) (\<lambda>page.
       first_result (page_price P page) jk_price_selectors))"

definition jk_extract_price :: "builtins \<Rightarrow> product \<Rightarrow> pyfloat option res" where
  \<comment> \<open>what the adapter returns for the matched entry; \<open>Inl\<close> when an exception leaves
      the cascade\<close>
  "jk_extract_price P p =
     and_then (first_result (jk_listing_price P p) jk_price_selectors) (\<lambda>r.
       case r of
         Some price \<Rightarrow> Inr (Some price)
       | None \<Rightarrow>
           (case jk_product_page P p of
              Inr (Some price) \<Rightarrow> Inr (Some price)
            | _ \<Rightarrow> Inr None))"

definition jk_check_product ::
  "builtins \<Rightarrow> pystr \<Rightarrow> product \<Rightarrow> pyfloat option option res" where
  \<comment> \<open>the body of the loop over the entries: \<open>Inr (Some r)\<close> is \<open>return r\<close>,
      \<open>Inr None\<close> is the end of the body\<close>
  "jk_check_product P sku p =
     and_then (jk_product_sku p) (\<lambda>product_sku.
       if jk_sku_matches P product_sku sku
       then and_then (jk_extract_price P p) (\<lambda>r. Inr (Some r))
       else Inr None)"

fun jk_products_loop :: "builtins \<Rightarrow> pystr \<Rightarrow> product list \<Rightarrow> pyfloat option" where
  "jk_products_loop P sku [] = None"
| "jk_products_loop P sku (p # ps) =
     (case jk_check_product P sku p of
        Inl e \<Rightarrow> jk_products_loop P sku ps
      | Inr None \<Rightarrow> jk_products_loop P sku ps
      | Inr (Some r) \<Rightarrow> r)"

definition search_justkampers_body :: "builtins \<Rightarrow> session \<Rightarrow> pystr \<Rightarrow> pyfloat option res" where
  \<comment> \<open>the statements inside the outer \<open>try\<close>\<close>
  "search_justkampers_body P s sku =
     and_then (start_driver s) (\<lambda>_.
       let search_sku = strip sku;
           search_url = u ''https://www.justkampers.com/catalogsearch/result/?q='' @ search_sku
       in
       and_then (driver_get s search_url) (\<lambda>_.
       and_then (find_products s ''div.product-item'') (\<lambda>products.
         if products = [] then Inr None
         else Inr (jk_products_loop P sku products))))"

definition search_justkampers :: "builtins \<Rightarrow> session \<Rightarrow> pystr \<Rightarrow> pyfloat option res" where
  "search_justkampers P s sku =
     (case search_justkampers_body P s sku of
        Inl e \<Rightarrow> Inr None
      | Inr r \<Rightarrow> Inr r)"

section \<open>The Heritage Parts Centre adapter\<close>

definition he_sku_selectors :: "string list" where
  "he_sku_selectors =
     [''div.product__sku mark'',
      ''div.product-item-sku'',
      ''span.sku'',
      ''div.sku'',
      ''span[itemprop='' @ [CHR 0x27] @ ''sku'' @ [CHR 0x27] @ '']'']"

definition he_price_selectors :: "string list" where
  "he_price_selectors =
     [''span.price-wrapper[data-price-including-tax] span.price'',
      ''span[itemprop='' @ [CHR 0x27] @ ''lowPrice'' @ [CHR 0x27] @ '']'',
      ''span.price:not(:empty)'',
      ''span[data-price-type='' @ [CHR 0x27] @ ''finalPrice'' @ [CHR 0x27] @ ''] span.price'',
      ''div.price-box span[data-price-amount]'',
      ''span.price-wrapper span.price'',
      ''div.price-final_price span.price'',
      ''span.regular-price span.price'']"

definition he_normalize :: "builtins \<Rightarrow> pystr \<Rightarrow> pystr" where
  \<comment> \<open>\<open>s.replace(' ', '').replace('/', '').upper()\<close>\<close>
  "he_normalize P s = py_upper P (remove_char 0x2F (remove_char 0x20 s))"

definition he_search_sku :: "pystr \<Rightarrow> pystr" where
  \<comment> \<open>\<open>sku.strip().rstrip('/')\<close>\<close>
  "he_search_sku sku = rstrip_slash (strip sku)"

fun he_sku_text :: "product \<Rightarrow> string list \<Rightarrow> pystr" where
  \<comment> \<open>the loop over the selectors of the identifier, every exception swallowed\<close>
  "he_sku_text p [] = []"
| "he_sku_text p (selector # selectors) =
     (case and_then (prod_find p selector) el_text of
        Inl e \<Rightarrow> he_sku_text p selectors
      | Inr t \<Rightarrow>
          (let sku_text = strip t in
           if sku_text \<noteq> [] then sku_text else he_sku_text p selectors))"

definition he_title :: "product \<Rightarrow> pystr res" where
  \<comment> \<open>the text of the link or heading that names the product\<close>
  "he_title p = and_then (prod_find p ''a.product-item-link, h2.product-name'') el_text"

definition he_product_sku :: "product \<Rightarrow> pystr \<Rightarrow> pystr" where
  \<comment> \<open>\<open>product_sku\<close>: the identifier shown, else the target when the title contains it\<close>
  "he_product_sku p search_sku =
     (let sku_text = he_sku_text p he_sku_selectors in
      if sku_text = [] then
        (case he_title p of
           Inl e \<Rightarrow> sku_text
         | Inr title \<Rightarrow> if contains title search_sku then search_sku else sku_text)
      else sku_text)"

definition he_sku_matches :: "builtins \<Rightarrow> pystr \<Rightarrow> pystr \<Rightarrow> bool" where
  \<comment> \<open>\<open>product_sku_normalized == search_normalized\<close>, for the \<open>sku\<close> the adapter was given\<close>
  "he_sku_matches P product_sku sku \<longleftrightarrow>
     he_normalize P product_sku = he_normalize P (he_search_sku sku)"

definition he_attribute_text :: "element \<Rightarrow> pystr option res" where
  \<comment> \<open>the attributes read when the text of the price element is empty\<close>
  "he_attribute_text price_element =
     and_then (el_parent price_element) (\<lambda>parent.
     and_then (parent ''data-price-including-tax'') (\<lambda>a.
     and_then (if truthy a then Inr a else el_attr price_element ''data-price-amount'') (\<lambda>b.
     and_then (if truthy b then Inr b else el_attr price_element ''content'') (\<lambda>c.
       if truthy c then Inr c else el_attr price_element ''innerText''))))"

definition he_listing_price :: "builtins \<Rightarrow> product \<Rightarrow> string \<Rightarrow> pyfloat option res" where
  \<comment> \<open>one selector on the matched entry of the result list\<close>
  "he_listing_price P p selector =
     catch_all
       (and_then (prod_find p selector) (\<lambda>price_element.
        and_then (el_text price_element) (\<lambda>t.
        and_then (if t = [] then he_attribute_text price_element else Inr (Some t))
          (\<lambda>price_text.
            if truthy price_text then
              and_then (parse_price P (the price_text)) (\<lambda>r.
                case r of
                  None \<Rightarrow> Inr None
                | Some price \<Rightarrow>
                    if float_gt price (Fin 0) then Inr (Some price) else Inr None)
            else Inr None))))"

definition he_product_page :: "builtins \<Rightarrow> product \<Rightarrow> pyfloat option res" where
  \<comment> \<open>the click through to the product page and the selectors tried there\<close>
  "he_product_page P p =
     and_then (prod_find p ''a.product-item-link'') (\<lambda>product_link.
     and_then (el_click product_link) (\<lambda>page.
       first_result (page_price P page) he_price_selectors))"

definition he_extract_price :: "builtins \<Rightarrow> product \<Rightarrow> pyfloat option res" where
  \<comment> \<open>the cascade on the matched entry: \<open>Inr (Some price)\<close> is \<open>return price\<close>,
      \<open>Inr None\<close> is the end of the loop body\<close>
  "he_extract_price P p =
     and_then (first_result (he_listing_price P p) he_price_selectors) (\<lambda>r.
       case r of
         Some price \<Rightarrow> Inr (Some price)
       | None \<Rightarrow> he_product_page P p)"

definition he_check_product :: "builtins \<Rightarrow> pystr \<Rightarrow> product \<Rightarrow> pyfloat option res" where
  "he_check_product P sku p =
     (let product_sku = he_product_sku p (he_search_sku sku) in
      if he_sku_matches P product_sku sku then he_extract_price P p else Inr None)"

fun he_products_loop :: "builtins \<Rightarrow> pystr \<Rightarrow> product list \<Rightarrow> pyfloat option" where
  "he_products_loop P sku [] = None"
| "he_products_loop P sku (p # ps) =
     (case he_check_product P sku p of
        Inl e \<Rightarrow> he_products_loop P sku ps
      | Inr None \<Rightarrow> he_products_loop P sku ps
      | Inr (Some price) \<Rightarrow> Some price)"

definition he_find_products :: "session \<Rightarrow> product list res" where
  \<comment> \<open>the locator of the entries and its two alternatives\<close>
  "he_find_products s =
     and_then (find_products s ''div.product-item-info'') (\<lambda>products.
       if products = [] then
         and_then (find_products s ''li.product-item'') (\<lambda>products.
           if products = [] then find_products s ''article.product-item-info''
           else Inr products)
       else Inr products)"

definition search_heritage_body :: "builtins \<Rightarrow> session \<Rightarrow> pystr \<Rightarrow> pyfloat option res" where
  \<comment> \<open>the statements inside the outer \<open>try\<close>\<close>
  "search_heritage_body P s sku =
     and_then (start_driver s) (\<lambda>_.
       let search_sku = he_search_sku sku;
           search_url =
             u ''https://www.heritagepartscentre.com/uk/catalogsearch/result/?q='' @ search_sku
       in
       and_then (driver_get s search_url) (\<lambda>_.
         case wait_products_grid s of
           Inl TimeoutException \<Rightarrow> Inr None
         | Inl e \<Rightarrow> Inl e
         | Inr _ \<Rightarrow>
             and_then (he_find_products s) (\<lambda>products.
               Inr (he_products_loop P sku products))))"

definition search_heritage :: "builtins \<Rightarrow> session \<Rightarrow> pystr \<Rightarrow> pyfloat option res" where
  "search_heritage P s sku =
     (case search_heritage_body P s sku of
        Inl e \<Rightarrow> Inr None
      | Inr r \<Rightarrow> Inr r)"

section \<open>The lookup\<close>

text \<open>
  \<open>get_price\<close> returns the pair the method returns and, beside it, the adapter calls it
  made, each as the name of the adapter and the identifier passed.
\<close>

type_synonym adapter_call = "string \<times> pystr"

definition get_price ::
  "builtins \<Rightarrow> session \<Rightarrow> pystr \<Rightarrow> ((pyfloat option \<times> pystr) \<times> adapter_call list) res" where
  "get_price P s item_name =
     (case extract_sku_from_name item_name of
        (description, sku) \<Rightarrow>
          if sku = [] then Inr ((None, u ''unknown''), [])
          else
            let website = determine_website sku in
            if website = u ''justkampers'' then
              and_then (search_justkampers P s sku) (\<lambda>price.
                Inr ((price, u ''JustKampers''), [(''search_justkampers'', sku)]))
            else
              and_then (search_heritage P s sku) (\<lambda>price.
                Inr ((price, u ''Heritage Parts Centre''), [(''search_heritage'', sku)])))"

section \<open>The batch\<close>

text \<open>
  A row of the table is the dictionary \<open>csv.DictReader\<close> made of it: the column names in the
  order of the header, each with the text of its cell. The three kinds of entry the batch
  collects are the three constructors of \<open>outcome\<close>, with the fields in the order the
  program writes them.
\<close>

type_synonym row = "(pystr \<times> pystr) list"

datatype outcome =
    Updated pystr pystr pyfloat pyfloat pyfloat pyfloat pystr
  | Unchanged pystr pystr pyfloat pystr
  | Error pystr pystr pyfloat pystr

definition dict_get :: "row \<Rightarrow> pystr \<Rightarrow> pystr \<Rightarrow> pystr" where
  \<comment> \<open>\<open>item.get(key, default)\<close>\<close>
  "dict_get item key dflt = (case map_of item key of None \<Rightarrow> dflt | Some v \<Rightarrow> v)"

definition current_price_of :: "builtins \<Rightarrow> row \<Rightarrow> pyfloat res" where
  \<comment> \<open>\<open>float(item.get('SalesUnitPrice', 0))\<close>\<close>
  "current_price_of P item =
     (case map_of item (u ''SalesUnitPrice'') of None \<Rightarrow> Inr (Fin 0) | Some v \<Rightarrow> py_float P v)"

definition compare_prices ::
  "pystr \<Rightarrow> pystr \<Rightarrow> pyfloat \<Rightarrow> pyfloat option \<Rightarrow> pystr \<Rightarrow> outcome res" where
  \<comment> \<open>the comparison of the price found with the price of the row; the \<open>0\<close> of the
      percentage is the integer, here the float of the same value\<close>
  "compare_prices item_code item_name current_price new_price source =
     (case new_price of
        Some new \<Rightarrow>
          (let price_diff = float_sub new current_price in
           and_then
             (if float_gt current_price (Fin 0)
              then and_then (py_truediv price_diff current_price)
                     (\<lambda>q. Inr (float_mul q (Fin 100)))
              else Inr (Fin 0))
             (\<lambda>price_diff_pct.
               if float_gt (float_abs price_diff) literal_0_01
               then Inr (Updated item_code item_name current_price new price_diff
                           price_diff_pct source)
               else Inr (Unchanged item_code item_name current_price source)))
      | None \<Rightarrow> Inr (Error item_code item_name current_price (u ''Price not found'')))"

definition update_row :: "builtins \<Rightarrow> outcome \<Rightarrow> row \<Rightarrow> row" where
  \<comment> \<open>\<open>item['SalesUnitPrice'] = str(new_price)\<close>, in the branch of an update only\<close>
  "update_row P out item =
     (case out of
        Updated _ _ _ new _ _ _ \<Rightarrow> AList.update (u ''SalesUnitPrice'') (py_str P new) item
      | _ \<Rightarrow> item)"

definition process_item :: "builtins \<Rightarrow> session \<Rightarrow> row \<Rightarrow> (outcome \<times> row) res" where
  \<comment> \<open>the body of the loop over the rows\<close>
  "process_item P s item =
     (let item_code = dict_get item (u ''ItemCode'') (dict_get item (u ''*ItemCode'') []);
          item_name = dict_get item (u ''ItemName'') []
      in
      and_then (current_price_of P item) (\<lambda>current_price.
      and_then (get_price P s item_name) (\<lambda>((new_price, source), calls).
      and_then (compare_prices item_code item_name current_price new_price source) (\<lambda>out.
        Inr (out, update_row P out item)))))"

fun process_items ::
  "builtins \<Rightarrow> (nat \<Rightarrow> session) \<Rightarrow> nat \<Rightarrow> row list \<Rightarrow> (outcome \<times> row) list res" where
  \<comment> \<open>\<open>for i, item in enumerate(items, 1)\<close>; \<open>world i\<close> is the browser during the lookup
      of row \<open>i\<close>\<close>
  "process_items P world i [] = Inr []"
| "process_items P world i (item # items) =
     and_then (process_item P (world i) item) (\<lambda>r.
     and_then (process_items P world (Suc i) items) (\<lambda>rs. Inr (r # rs)))"

definition dict_to_list :: "pystr list \<Rightarrow> row \<Rightarrow> pystr list res" where
  \<comment> \<open>\<open>csv.DictWriter\<close> on one row: a key outside the field names raises, a missing key
      is written empty\<close>
  "dict_to_list fieldnames item =
     (if \<exists>k \<in> set (map fst item). k \<notin> set fieldnames then Inl ValueError
      else Inr (map (\<lambda>k. dict_get item k []) fieldnames))"

fun write_rows :: "pystr list \<Rightarrow> row list \<Rightarrow> pystr list list res" where
  "write_rows fieldnames [] = Inr []"
| "write_rows fieldnames (item # items) =
     and_then (dict_to_list fieldnames item) (\<lambda>l.
     and_then (write_rows fieldnames items) (\<lambda>ls. Inr (l # ls)))"

definition is_updated :: "outcome \<Rightarrow> bool" where
  "is_updated out \<longleftrightarrow> (case out of Updated _ _ _ _ _ _ _ \<Rightarrow> True | _ \<Rightarrow> False)"

definition is_unchanged :: "outcome \<Rightarrow> bool" where
  "is_unchanged out \<longleftrightarrow> (case out of Unchanged _ _ _ _ \<Rightarrow> True | _ \<Rightarrow> False)"

definition is_error :: "outcome \<Rightarrow> bool" where
  "is_error out \<longleftrightarrow> (case out of Error _ _ _ _ \<Rightarrow> True | _ \<Rightarrow> False)"

section \<open>The two files of the table\<close>

text \<open>
  A file is the text it holds in UTF-8. The input is opened with the encoding \<open>utf-8-sig\<close>
  and universal newlines: a byte order mark at the start is dropped, and \<open>\r\n\<close> and \<open>\r\<close>
  become \<open>\n\<close>, inside quoted cells too. \<open>csv.reader\<close> then reads the lines with the
  dialect \<open>excel\<close>; its automaton is written out below.
\<close>

definition strip_bom :: "pystr \<Rightarrow> pystr" where
  "strip_bom t = (case t of [] \<Rightarrow> [] | c # r \<Rightarrow> if c = 0xFEFF then r else t)"

fun universal_newlines :: "pystr \<Rightarrow> pystr" where
  "universal_newlines [] = []"
| "universal_newlines [c] = [if c = 0x0D then 0x0A else c]"
| "universal_newlines (c # d # t) =
     (if c = 0x0D \<and> d = 0x0A then 0x0A # universal_newlines t
      else if c = 0x0D then 0x0A # universal_newlines (d # t)
      else c # universal_newlines (d # t))"

fun split_lines :: "pystr \<Rightarrow> pystr \<Rightarrow> pystr list" where
  \<comment> \<open>the lines of a text, each with its \<open>\n\<close>; \<open>cur\<close> is the line begun\<close>
  "split_lines cur [] = (if cur = [] then [] else [cur])"
| "split_lines cur (c # t) =
     (if c = 0x0A then (cur @ [c]) # split_lines [] t else split_lines (cur @ [c]) t)"

datatype cstate = StartRecord | StartField | InField | InQuoted | QuoteInQuoted | EatCrnl

type_synonym pstate = "cstate \<times> pystr list \<times> pystr"

definition field_limit :: nat where
  \<comment> \<open>\<open>csv.field_size_limit()\<close>\<close>
  "field_limit = 131072"

definition is_newline :: "nat \<Rightarrow> bool" where
  "is_newline c \<longleftrightarrow> c = 0x0A \<or> c = 0x0D"

definition add_char :: "cstate \<Rightarrow> pystr list \<Rightarrow> pystr \<Rightarrow> nat \<Rightarrow> pstate res" where
  "add_char st flds fld c =
     (if field_limit \<le> length fld then Inl CsvError else Inr (st, flds, fld @ [c]))"

definition start_field :: "pystr list \<Rightarrow> pystr \<Rightarrow> nat \<Rightarrow> pstate res" where
  "start_field flds fld c =
     (if is_newline c then Inr (EatCrnl, flds @ [fld], [])
      else if c = 0x22 then Inr (InQuoted, flds, fld)
      else if c = 0x2C then Inr (StartField, flds @ [fld], [])
      else add_char InField flds fld c)"

fun parse_char :: "pstate \<Rightarrow> nat \<Rightarrow> pstate res" where
  "parse_char (StartRecord, flds, fld) c =
     (if is_newline c then Inr (EatCrnl, flds, fld) else start_field flds fld c)"
| "parse_char (StartField, flds, fld) c = start_field flds fld c"
| "parse_char (InField, flds, fld) c =
     (if is_newline c then Inr (EatCrnl, flds @ [fld], [])
      else if c = 0x2C then Inr (StartField, flds @ [fld], [])
      else add_char InField flds fld c)"
| "parse_char (InQuoted, flds, fld) c =
     (if c = 0x22 then Inr (QuoteInQuoted, flds, fld)
      else add_char InQuoted flds fld c)"
| "parse_char (QuoteInQuoted, flds, fld) c =
     (if c = 0x22 then add_char InQuoted flds fld c
      else if c = 0x2C then Inr (StartField, flds @ [fld], [])
      else if is_newline c then Inr (EatCrnl, flds @ [fld], [])
      else add_char InField flds fld c)"
| "parse_char (EatCrnl, flds, fld) c =
     (if is_newline c then Inr (EatCrnl, flds, fld) else Inl CsvError)"

fun parse_eol :: "pstate \<Rightarrow> pstate" where
  \<comment> \<open>the end of a line\<close>
  "parse_eol (StartRecord, flds, fld) = (StartRecord, flds, fld)"
| "parse_eol (InQuoted, flds, fld) = (InQuoted, flds, fld)"
| "parse_eol (EatCrnl, flds, fld) = (StartRecord, flds, fld)"
| "parse_eol (st, flds, fld) = (StartRecord, flds @ [fld], [])"

fun feed_chars :: "pstate \<Rightarrow> pystr \<Rightarrow> pstate res" where
  "feed_chars st [] = Inr st"
| "feed_chars st (c # cs) = and_then (parse_char st c) (\<lambda>st'. feed_chars st' cs)"

definition feed_line :: "pstate \<Rightarrow> pystr \<Rightarrow> pstate res" where
  "feed_line st line = and_then (feed_chars st line) (\<lambda>st'. Inr (parse_eol st'))"

fun read_records :: "pstate \<Rightarrow> pystr list \<Rightarrow> pystr list list res" where
  \<comment> \<open>the records of the lines; a record ends with the line after which the automaton is
      at the start of a record, and the input may end inside a quoted cell\<close>
  "read_records st [] =
     (case st of (InQuoted, flds, fld) \<Rightarrow> Inr [flds @ [fld]] | _ \<Rightarrow> Inr [])"
| "read_records st (line # lines) =
     and_then (feed_line st line) (\<lambda>st'.
       if fst st' = StartRecord
       then and_then (read_records (StartRecord, [], []) lines) (\<lambda>rs. Inr (fst (snd st') # rs))
       else read_records st' lines)"

definition zip_dict :: "pystr list \<Rightarrow> pystr list \<Rightarrow> row" where
  \<comment> \<open>\<open>dict(zip(fieldnames, row))\<close>: of two columns of one name the later cell stays\<close>
  "zip_dict fieldnames cells =
     foldl (\<lambda>d (k, v). AList.update k v d) [] (zip fieldnames cells)"

definition dict_reader :: "pystr list list \<Rightarrow> row list option" where
  \<comment> \<open>\<open>list(csv.DictReader(f))\<close> on the records read: the first is the header, empty
      records are skipped. \<open>None\<close> when a record has fewer or more cells than the header:
      \<open>DictReader\<close> fills such a row with \<open>None\<close> or collects cells under the key \<open>None\<close>,
      and that is no \<open>row\<close>\<close>
  "dict_reader records =
     (case records of
        [] \<Rightarrow> Some []
      | fieldnames # rest \<Rightarrow>
          (let rows = filter (\<lambda>r. r \<noteq> []) rest in
           if list_all (\<lambda>r. length r = length fieldnames) rows
           then Some (map (zip_dict fieldnames) rows)
           else None))"

definition csv_reader :: "pystr \<Rightarrow> pystr list list res" where
  \<comment> \<open>the records \<open>csv.reader\<close> gives for a file of this text, opened as the input is\<close>
  "csv_reader text =
     read_records (StartRecord, [], []) (split_lines [] (universal_newlines (strip_bom text)))"

definition read_table :: "pystr \<Rightarrow> row list option res" where
  "read_table text = and_then (csv_reader text) (\<lambda>records. Inr (dict_reader records))"

text \<open>
  The output is opened with \<open>newline=''\<close> and the encoding \<open>utf-8\<close>, so the text of the
  writer is the text of the file: a cell is quoted when it holds a comma, a quote, \<open>\r\<close>
  or \<open>\n\<close>, a quote inside is doubled, and every record ends with \<open>\r\n\<close>.
\<close>

definition needs_quote :: "pystr \<Rightarrow> bool" where
  "needs_quote f \<longleftrightarrow> list_ex (\<lambda>c. c = 0x2C \<or> c = 0x22 \<or> c = 0x0D \<or> c = 0x0A) f"

definition write_field :: "pystr \<Rightarrow> pystr" where
  "write_field f =
     (if needs_quote f
      then [0x22] @ concat (map (\<lambda>c. if c = 0x22 then [0x22, 0x22] else [c]) f) @ [0x22]
      else f)"

fun join_fields :: "pystr list \<Rightarrow> pystr" where
  "join_fields [] = []"
| "join_fields [f] = write_field f"
| "join_fields (f # g # fs) = write_field f @ [0x2C] @ join_fields (g # fs)"

definition write_record :: "pystr list \<Rightarrow> pystr" where
  \<comment> \<open>\<open>writer.writerow(cells)\<close>; a single empty cell is written as two quotes\<close>
  "write_record cells =
     (if cells = [[]] then [0x22, 0x22] else join_fields cells) @ [0x0D, 0x0A]"

definition csv_text :: "pystr list list \<Rightarrow> pystr" where
  "csv_text table = concat (map write_record table)"

record batch_result =
  output_table :: "pystr list list"
  output_text :: pystr
  updates :: "outcome list"
  errors :: "outcome list"
  unchanged :: "outcome list"

text \<open>
  \<open>output_table\<close> is what \<open>csv.DictWriter\<close> is asked to write to the first output file,
  the header and then one line of cells for each row, and \<open>output_text\<close> is the text of
  that file. The text report, which only formats the three lists, is left out.
\<close>

definition process_table :: "builtins \<Rightarrow> (nat \<Rightarrow> session) \<Rightarrow> row list \<Rightarrow> batch_result res" where
  \<comment> \<open>the statements of \<open>process_xero_export\<close> after the table is read\<close>
  "process_table P world items =
     and_then (process_items P world 1 items) (\<lambda>results.
       let outs = map fst results; items' = map snd results in
       and_then (case items' of [] \<Rightarrow> Inl IndexError | first # _ \<Rightarrow> Inr (map fst first))
         (\<lambda>fieldnames.
       and_then (write_rows fieldnames items') (\<lambda>lines.
         Inr \<lparr> output_table = fieldnames # lines,
               output_text = csv_text (fieldnames # lines),
               updates = filter is_updated outs,
               errors = filter is_error outs,
               unchanged = filter is_unchanged outs \<rparr>)))"

definition process_xero_export ::
  "builtins \<Rightarrow> (nat \<Rightarrow> session) \<Rightarrow> pystr \<Rightarrow> batch_result res option" where
  \<comment> \<open>from the text of the input file; \<open>None\<close> when the table read is outside the model\<close>
  "process_xero_export P world input_text =
     (case read_table input_text of
        Inl e \<Rightarrow> Some (Inl e)
      | Inr None \<Rightarrow> None
      | Inr (Some items) \<Rightarrow> Some (process_table P world items))"

section \<open>Notions used to state the properties\<close>

text \<open>
  The normalisation and the identifier as the specification words them, to be compared
  with what the program computes.
\<close>

definition spec_normalize :: "builtins \<Rightarrow> pystr \<Rightarrow> pystr" where
  \<comment> \<open>spaces removed, slashes removed, upper case\<close>
  "spec_normalize P s = py_upper P (filter (\<lambda>c. c \<noteq> 0x20 \<and> c \<noteq> 0x2F) s)"

definition strip_one_slash :: "pystr \<Rightarrow> pystr" where
  \<comment> \<open>a single trailing slash removed\<close>
  "strip_one_slash s = (if s \<noteq> [] \<and> last s = 0x2F then butlast s else s)"

definition spec_identifier :: "pystr \<Rightarrow> pystr" where
  \<comment> \<open>what follows the last whitespace character, trimmed, less one trailing slash\<close>
  "spec_identifier item_name =
     strip_one_slash (strip (rev (takeWhile (\<lambda>c. \<not> is_space c) (rev item_name))))"

text \<open>
  An entry of the result list matches when the program's test on it succeeds. The
  identifier a Heritage entry shows is the first text, not empty once trimmed, under the
  selectors of the identifier.
\<close>

definition jk_candidate_matches :: "builtins \<Rightarrow> pystr \<Rightarrow> product \<Rightarrow> bool" where
  "jk_candidate_matches P sku p \<longleftrightarrow>
     (case jk_product_sku p of
        Inl e \<Rightarrow> False
      | Inr product_sku \<Rightarrow> jk_sku_matches P product_sku sku)"

definition he_candidate_matches :: "builtins \<Rightarrow> pystr \<Rightarrow> product \<Rightarrow> bool" where
  "he_candidate_matches P sku p \<longleftrightarrow>
     he_sku_matches P (he_product_sku p (he_search_sku sku)) sku"

definition he_displayed_sku :: "product \<Rightarrow> pystr" where
  "he_displayed_sku p = he_sku_text p he_sku_selectors"

definition jk_search_url :: "pystr \<Rightarrow> pystr" where
  "jk_search_url sku =
     u ''https://www.justkampers.com/catalogsearch/result/?q='' @ strip sku"

definition he_search_url :: "pystr \<Rightarrow> pystr" where
  "he_search_url sku =
     u ''https://www.heritagepartscentre.com/uk/catalogsearch/result/?q='' @ he_search_sku sku"

text \<open>The code and the name the batch reads from a row, and what the lookup of a row gives.\<close>

definition item_code_of :: "row \<Rightarrow> pystr" where
  "item_code_of item = dict_get item (u ''ItemCode'') (dict_get item (u ''*ItemCode'') [])"

definition item_name_of :: "row \<Rightarrow> pystr" where
  "item_name_of item = dict_get item (u ''ItemName'') []"

definition looked_up :: "builtins \<Rightarrow> session \<Rightarrow> row \<Rightarrow> pyfloat option \<times> pystr" where
  "looked_up P s item =
     (case get_price P s (item_name_of item) of
        Inl e \<Rightarrow> (None, [])
      | Inr ((new_price, source), calls) \<Rightarrow> (new_price, source))"

text \<open>The number a decimal numeral without sign or exponent writes, before any rounding.\<close>

definition ascii_digit :: "nat \<Rightarrow> bool" where
  "ascii_digit c \<longleftrightarrow> 0x30 \<le> c \<and> c \<le> 0x39"

definition digits_value :: "pystr \<Rightarrow> nat" where
  "digits_value s = foldl (\<lambda>n c. 10 * n + (c - 0x30)) 0 s"

definition decimal_value :: "pystr \<Rightarrow> real" where
  "decimal_value s =
     (let a = takeWhile ascii_digit s;
          r = dropWhile ascii_digit s;
          f = (if startswith r (u ''.'') then tl r else r)
      in real (digits_value a) + real (digits_value f) / 10 ^ length f)"

section \<open>Example inputs\<close>

text \<open>
  An instance of the built-ins for the examples, which are in ASCII: \<open>float\<close> on decimal
  numerals without exponent, \<open>upper\<close> and \<open>\d\<close> on ASCII, and \<open>str\<close> on a double whose
  decimal expansion ends within 17 places after the point, such as 15.0 and 12.75.
\<close>

definition float_decimal :: "pystr \<Rightarrow> pyfloat res" where
  "float_decimal s =
     (let t = strip s;
          neg = startswith t (u ''-'');
          n = (if neg \<or> startswith t (u ''+'') then tl t else t);
          a = takeWhile ascii_digit n;
          r = dropWhile ascii_digit n;
          f = (if startswith r (u ''.'') then tl r else r)
      in
      if (a = [] \<and> f = []) \<or> \<not> list_all ascii_digit f then Inl ValueError
      else Inr (round_double neg (decimal_value n)))"

definition upper_ascii :: "pystr \<Rightarrow> pystr" where
  "upper_ascii s = map (\<lambda>c. if 0x61 \<le> c \<and> c \<le> 0x7A then c - 0x20 else c) s"

fun show_nat :: "nat \<Rightarrow> pystr" where
  "show_nat n =
     (if n < 10 then [0x30 + n]
      else show_nat (n div 10) @ [0x30 + n mod 10])"

fun frac_digits :: "nat \<Rightarrow> real \<Rightarrow> pystr" where
  "frac_digits k x =
     (if k = 0 then []
      else
        let d = nat \<lfloor>x * 10\<rfloor>; r = x * 10 - real d in
        (0x30 + d) # (if r = 0 then [] else frac_digits (k - 1) r))"

definition str_decimal :: "pyfloat \<Rightarrow> pystr" where
  "str_decimal a =
     (case a of
        Fin x \<Rightarrow>
          (let m = \<bar>x\<bar>; n = nat \<lfloor>m\<rfloor> in
           (if x < 0 then u ''-'' else []) @ show_nat n @ u ''.'' @ frac_digits 17 (m - real n))
      | NegZero \<Rightarrow> u ''-0.0''
      | PInf \<Rightarrow> u ''inf''
      | NInf \<Rightarrow> u ''-inf''
      | NaN \<Rightarrow> u ''nan'')"

definition decimal_builtins :: builtins where
  "decimal_builtins =
     \<lparr> py_float = float_decimal, py_str = str_decimal, py_upper = upper_ascii,
       re_digit = ascii_digit \<rparr>"

text \<open>Elements, entries and result pages that answer a few selectors only.\<close>

definition text_element :: "pystr \<Rightarrow> element" where
  "text_element t =
     \<lparr> el_text = Inr t,
       el_attr = (\<lambda>name. Inr None),
       el_parent = Inr (\<lambda>name. Inr None),
       el_click = Inl WebDriverException \<rparr>"

definition link_element :: "string \<Rightarrow> pystr \<Rightarrow> element" where
  \<comment> \<open>a link to a product page that shows the text \<open>t\<close> under the selector \<open>sel\<close>\<close>
  "link_element sel t =
     \<lparr> el_text = Inr [],
       el_attr = (\<lambda>name. Inr None),
       el_parent = Inr (\<lambda>name. Inr None),
       el_click = Inr (\<lambda>q. if q = sel then Inr (Inr t) else Inl NoSuchElementException) \<rparr>"

definition jk_entry :: "pystr \<Rightarrow> pystr \<Rightarrow> product" where
  \<comment> \<open>an entry with one label and one \<open>span.price\<close>\<close>
  "jk_entry label price_text =
     \<lparr> prod_texts = (\<lambda>sel. if sel = ''div.amlabel-text'' then Inr [Inr label] else Inr []),
       prod_find = (\<lambda>sel. if sel = ''span.price'' then Inr (text_element price_text)
                           else Inl NoSuchElementException) \<rparr>"

definition he_entry :: "pystr \<Rightarrow> pystr \<Rightarrow> pystr \<Rightarrow> product" where
  \<comment> \<open>an entry with an identifier and two price elements\<close>
  "he_entry sku_text t1 t2 =
     \<lparr> prod_texts = (\<lambda>sel. Inr []),
       prod_find = (\<lambda>sel.
         if sel = ''div.product__sku mark'' then Inr (text_element sku_text)
         else if sel = ''span.price-wrapper[data-price-including-tax] span.price''
           then Inr (text_element t1)
         else if sel = ''span.price:not(:empty)'' then Inr (text_element t2)
         else Inl NoSuchElementException) \<rparr>"

definition he_titled_entry :: "pystr \<Rightarrow> pystr \<Rightarrow> product" where
  \<comment> \<open>an entry that shows no identifier, with a title and a price\<close>
  "he_titled_entry title price_text =
     \<lparr> prod_texts = (\<lambda>sel. Inr []),
       prod_find = (\<lambda>sel.
         if sel = ''a.product-item-link, h2.product-name'' then Inr (text_element title)
         else if sel = ''span.price:not(:empty)'' then Inr (text_element price_text)
         else Inl NoSuchElementException) \<rparr>"

definition he_linked_entry :: "pystr \<Rightarrow> pystr \<Rightarrow> product" where
  \<comment> \<open>an entry with an identifier, no price in the list and a link to its product page\<close>
  "he_linked_entry sku_text page_text =
     \<lparr> prod_texts = (\<lambda>sel. Inr []),
       prod_find = (\<lambda>sel.
         if sel = ''div.product__sku mark'' then Inr (text_element sku_text)
         else if sel = ''a.product-item-link''
           then Inr (link_element ''span.price:not(:empty)'' page_text)
         else Inl NoSuchElementException) \<rparr>"

definition result_page :: "product list \<Rightarrow> session" where
  "result_page entries =
     \<lparr> start_driver = Inr (),
       driver_get = (\<lambda>url. Inr ()),
       wait_products_grid = Inr (),
       find_products = (\<lambda>sel.
         if sel = ''div.product-item'' \<or> sel = ''div.product-item-info'' then Inr entries
         else Inr []) \<rparr>"

text \<open>Pieces of the text of a table: the line end \<open>\r\n\<close> and a cell in quotes.\<close>

definition crlf :: pystr where
  "crlf = [0x0D, 0x0A]"

definition quoted :: "pystr \<Rightarrow> pystr" where
  "quoted s = [0x22] @ s @ [0x22]"

definition broken_session :: session where
  \<comment> \<open>a browser that does not start\<close>
  "broken_session =
     \<lparr> start_driver = Inl WebDriverException,
       driver_get = (\<lambda>url. Inl WebDriverException),
       wait_products_grid = Inl TimeoutException,
       find_products = (\<lambda>sel. Inl WebDriverException) \<rparr>"

section \<open>Evaluating the examples\<close>

text \<open>The defining equations, grouped, for the simplifier to run the model on the examples.\<close>

declare halvings.simps [simp del] doublings.simps [simp del]
  show_nat.simps [simp del] frac_digits.simps [simp del]

lemmas string_defs =
  u_def is_space_def rstrip_chars_def strip_def rstrip_slash_def
  remove_char_def startswith_def rsplit_space1_def extract_sku_from_name_def
  determine_website_def

lemmas float_defs =
  halvings.simps doublings.simps pow2_def exponent_of_def round_half_even_def round_magnitude_def round_double_def
  fval_def is_inf_def is_zero_def negative_def float_sub_def float_div_def float_mul_def
  float_abs_def float_gt_def py_truediv_def literal_0_01_def Let_def

lemmas builtin_defs =
  show_nat.simps frac_digits.simps ascii_digit_def digits_value_def decimal_value_def float_decimal_def upper_ascii_def
  str_decimal_def decimal_builtins_def

lemmas browser_defs =
  and_then_def truthy_def price_char_def price_match_def parse_price_def
  catch_no_such_element_def catch_all_def page_price_def
  text_element_def link_element_def jk_entry_def he_entry_def he_titled_entry_def
  he_linked_entry_def result_page_def broken_session_def crlf_def quoted_def

lemmas jk_defs =
  jk_price_selectors_def jk_product_sku_def jk_sku_matches_def jk_listing_price_def
  jk_product_page_def jk_extract_price_def jk_check_product_def search_justkampers_body_def
  search_justkampers_def

lemmas he_defs =
  he_sku_selectors_def he_price_selectors_def he_normalize_def he_search_sku_def he_title_def
  he_product_sku_def he_sku_matches_def he_attribute_text_def he_listing_price_def
  he_product_page_def he_extract_price_def he_check_product_def he_find_products_def
  search_heritage_body_def search_heritage_def

lemmas batch_defs =
  get_price_def dict_get_def current_price_of_def compare_prices_def
  update_row_def process_item_def dict_to_list_def is_updated_def is_unchanged_def
  is_error_def process_table_def item_code_of_def item_name_of_def looked_up_def

lemmas file_defs =
  strip_bom_def field_limit_def is_newline_def add_char_def start_field_def feed_line_def
  zip_dict_def dict_reader_def csv_reader_def read_table_def needs_quote_def write_field_def
  write_record_def csv_text_def process_xero_export_def

section \<open>The identifier extractor and the router\<close>

lemma takeWhile_until: "x \<notin> set xs \<Longrightarrow> takeWhile (\<lambda>c. c \<noteq> x) (xs @ x # ys) = xs"
  by (induction xs) auto

lemma dropWhile_until: "x \<notin> set xs \<Longrightarrow> dropWhile (\<lambda>c. c \<noteq> x) (xs @ x # ys) = x # ys"
  by (induction xs) auto

lemma rsplit_space1_split:
  assumes "0x20 \<notin> set t"
  shows "rsplit_space1 (d @ 0x20 # t) = [d, t]"
proof -
  have ns: "0x20 \<notin> set (rev t)"
    using assms by simp
  have "takeWhile (\<lambda>c. c \<noteq> 0x20) (rev t @ 0x20 # rev d) = rev t"
    using ns by (rule takeWhile_until)
  moreover have "dropWhile (\<lambda>c. c \<noteq> 0x20) (rev t @ 0x20 # rev d) = 0x20 # rev d"
    using ns by (rule dropWhile_until)
  ultimately show ?thesis
    by (simp add: rsplit_space1_def)
qed

lemma extract_split:
  assumes "0x20 \<notin> set t"
  shows "extract_sku_from_name (d @ 0x20 # t) = (strip d, rstrip_slash (strip t))"
  by (simp add: extract_sku_from_name_def rsplit_space1_split [OF assms])

lemma extract_no_space:
  "0x20 \<notin> set s \<Longrightarrow> extract_sku_from_name s = (s, [])"
  by (simp add: extract_sku_from_name_def rsplit_space1_def)

lemma rstrip_chars_decomp:
  "\<exists>k. s = rstrip_chars (\<lambda>c. c = x) s @ replicate k x"
proof -
  let ?t = "takeWhile (\<lambda>c. c = x) (rev s)"
  have "rev s = ?t @ dropWhile (\<lambda>c. c = x) (rev s)" by simp
  moreover have "?t = replicate (length ?t) x"
    by (metis (mono_tags, lifting) replicate_eqI set_takeWhileD)
  ultimately have "rev s = replicate (length ?t) x @ dropWhile (\<lambda>c. c = x) (rev s)"
    by simp
  then have "s = rev (dropWhile (\<lambda>c. c = x) (rev s)) @ replicate (length ?t) x"
    by (metis rev_append rev_replicate rev_rev_ident)
  then show ?thesis unfolding rstrip_chars_def by blast
qed

lemma rstrip_chars_last:
  "rstrip_chars P s \<noteq> [] \<Longrightarrow> \<not> P (last (rstrip_chars P s))"
  unfolding rstrip_chars_def
  by (metis hd_dropWhile last_rev rev_is_Nil_conv)

lemma rstrip_slash_no_trailing: "rstrip_slash s \<noteq> t @ [0x2F]"
proof
  assume a: "rstrip_slash s = t @ [0x2F]"
  then have "rstrip_slash s \<noteq> []" by simp
  then have "last (rstrip_slash s) \<noteq> 0x2F"
    unfolding rstrip_slash_def by (rule rstrip_chars_last)
  with a show False by simp
qed

text \<open>
  C5, as the program has it: an item name with at least one blank splits at its last blank,
  and the identifier is what follows that blank, with surrounding whitespace trimmed and then
  every trailing slash removed (the description is what precedes it, trimmed). An item name
  without a blank, whatever other whitespace it holds, gives the name itself and the empty
  identifier. Nothing is raised. The split is at the last blank, not at any whitespace
  character, and all trailing slashes go, not one.
\<close>

theorem extract_sku_after_last_space:
  "(0x20 \<in> set item_name \<longrightarrow>
      (\<exists>d t. item_name = d @ 0x20 # t \<and> 0x20 \<notin> set t
         \<and> extract_sku_from_name item_name = (strip d, rstrip_slash (strip t))
         \<and> (\<exists>k. strip t = snd (extract_sku_from_name item_name) @ replicate k 0x2F)
         \<and> (\<forall>w. snd (extract_sku_from_name item_name) \<noteq> w @ [0x2F])))
   \<and> (0x20 \<notin> set item_name \<longrightarrow> extract_sku_from_name item_name = (item_name, []))"
proof (intro conjI impI)
  assume "0x20 \<in> set item_name"
  then obtain d t where dt: "item_name = d @ 0x20 # t" "0x20 \<notin> set t"
    by (meson split_list_last)
  have e: "extract_sku_from_name item_name = (strip d, rstrip_slash (strip t))"
    using dt extract_split by simp
  have k: "\<exists>k. strip t = snd (extract_sku_from_name item_name) @ replicate k 0x2F"
    using rstrip_chars_decomp [of "strip t" "0x2F"] by (simp add: e rstrip_slash_def)
  have w: "\<forall>w. snd (extract_sku_from_name item_name) \<noteq> w @ [0x2F]"
    by (simp add: e rstrip_slash_no_trailing)
  show "\<exists>d t. item_name = d @ 0x20 # t \<and> 0x20 \<notin> set t
         \<and> extract_sku_from_name item_name = (strip d, rstrip_slash (strip t))
         \<and> (\<exists>k. strip t = snd (extract_sku_from_name item_name) @ replicate k 0x2F)
         \<and> (\<forall>w. snd (extract_sku_from_name item_name) \<noteq> w @ [0x2F])"
    using dt e k w by blast
next
  assume "0x20 \<notin> set item_name"
  then show "extract_sku_from_name item_name = (item_name, [])"
    by (rule extract_no_space)
qed

theorem extract_sku_after_last_space_witness:
  "0x20 \<in> set (u ''Rear Light 113/945//'')
   \<and> extract_sku_from_name (u ''Rear Light 113/945//'') = (u ''Rear Light'', u ''113/945'')
   \<and> extract_sku_from_name (u ''Part A1'' @ [0xA0]) = (u ''Part'', u ''A1'')
   \<and> 0x20 \<notin> set (u ''Gasket'' @ [0x09] @ u ''A1'')
   \<and> extract_sku_from_name (u ''Gasket'' @ [0x09] @ u ''A1'') = (u ''Gasket'' @ [0x09] @ u ''A1'', [])"
  using extract_sku_after_last_space [of "u ''Rear Light 113/945//''"]
        extract_sku_after_last_space [of "u ''Gasket'' @ [0x09] @ u ''A1''"]
  by (simp add: string_defs)

theorem extract_sku_single_slash_counterexample:
  "is_space 0x20 \<and> 0x20 \<in> set (u ''AB C//'')
   \<and> snd (extract_sku_from_name (u ''AB C//'')) = u ''C''
   \<and> spec_identifier (u ''AB C//'') = u ''C/''
   \<and> is_space 0x09 \<and> 0x09 \<in> set (u ''A'' @ [0x09] @ u ''C'')
   \<and> snd (extract_sku_from_name (u ''A'' @ [0x09] @ u ''C'')) = []
   \<and> spec_identifier (u ''A'' @ [0x09] @ u ''C'') = u ''C''"
  by (simp add: string_defs spec_identifier_def strip_one_slash_def)

lemma startswith_J: "startswith (c # cs) (u ''J'') \<longleftrightarrow> c = 0x4A"
  by (simp add: startswith_def u_def)

text \<open>
  C7: on a non-empty identifier the router looks at the first character only. An upper-case
  \<open>J\<close> gives \<open>justkampers\<close>, anything else, a lower-case \<open>j\<close> included, gives
  \<open>heritage\<close>; the function is total.
\<close>

theorem determine_website_first_character:
  "determine_website (c # cs) = (if c = 0x4A then u ''justkampers'' else u ''heritage'')
   \<and> determine_website (c # cs) = determine_website [c]
   \<and> determine_website (0x6A # cs) = u ''heritage''"
  by (simp add: determine_website_def startswith_J)

theorem determine_website_first_character_witness:
  "determine_website (u ''J21066'') = u ''justkampers''
   \<and> determine_website (u ''j21066'') = u ''heritage''
   \<and> determine_website (u ''A1002'') = u ''heritage''
   \<and> determine_website (u ''J21066'') = determine_website (u ''J'')
   \<and> u ''J'' = [0x4A] \<and> u ''j'' = [0x6A]"
  using determine_website_first_character [of "0x4A" "u ''21066''"]
        determine_website_first_character [of "0x6A" "u ''21066''"]
        determine_website_first_character [of "0x41" "u ''1002''"]
  by (simp add: determine_website_def startswith_def u_def)

section \<open>The lookup never fails and names its source\<close>

lemma search_justkampers_returns: "\<exists>r. search_justkampers P s sku = Inr r"
  by (simp add: search_justkampers_def split: sum.split)

lemma search_heritage_returns: "\<exists>r. search_heritage P s sku = Inr r"
  by (simp add: search_heritage_def split: sum.split)






text \<open>
  C10: when the identifier extracted from the item name is not empty, \<open>get_price\<close> calls
  the adapter of the routed catalog once and returns its price, absent or not, with the
  display name of that catalog; the source \<open>unknown\<close> is returned exactly when the identifier
  is empty.
\<close>

theorem get_price_source_of_identifier:
  "(snd (extract_sku_from_name item_name) \<noteq> [] \<longrightarrow>
      (\<exists>price. get_price P s item_name =
         Inr ((price,
               if determine_website (snd (extract_sku_from_name item_name)) = u ''justkampers''
               then u ''JustKampers'' else u ''Heritage Parts Centre''),
              [(if determine_website (snd (extract_sku_from_name item_name)) = u ''justkampers''
                then ''search_justkampers'' else ''search_heritage'',
                snd (extract_sku_from_name item_name))])))
   \<and> ((\<exists>price calls. get_price P s item_name = Inr ((price, u ''unknown''), calls))
        \<longleftrightarrow> snd (extract_sku_from_name item_name) = [])"
proof (cases "extract_sku_from_name item_name")
  case (Pair description sku)
  obtain a where a: "search_justkampers P s sku = Inr a"
    using search_justkampers_returns by blast
  obtain b where b: "search_heritage P s sku = Inr b"
    using search_heritage_returns by blast
  show ?thesis
    using Pair a b
    by (auto simp: get_price_def and_then_def u_def)
qed

theorem get_price_source_of_identifier_witness:
  "snd (extract_sku_from_name (u ''Brake Caliper J21066'')) \<noteq> []
   \<and> get_price decimal_builtins broken_session (u ''Brake Caliper J21066'')
       = Inr ((None, u ''JustKampers''), [(''search_justkampers'', u ''J21066'')])
   \<and> get_price decimal_builtins broken_session (u ''Rear Light Lens A1002'')
       = Inr ((None, u ''Heritage Parts Centre''), [(''search_heritage'', u ''A1002'')])"
proof -
  have h: "snd (extract_sku_from_name (u ''Brake Caliper J21066'')) \<noteq> []"
    by (simp add: string_defs)
  have e: "get_price decimal_builtins broken_session (u ''Brake Caliper J21066'')
       = Inr ((None, u ''JustKampers''), [(''search_justkampers'', u ''J21066'')])"
     "get_price decimal_builtins broken_session (u ''Rear Light Lens A1002'')
       = Inr ((None, u ''Heritage Parts Centre''), [(''search_heritage'', u ''A1002'')])"
    by (simp_all add: string_defs batch_defs browser_defs jk_defs he_defs)
  show ?thesis
    using h e get_price_source_of_identifier [of "u ''Brake Caliper J21066''" decimal_builtins broken_session]
    by simp
qed

section \<open>The comparison step\<close>

lemma literal_0_01_value: "literal_0_01 = Fin (5764607523034235 / 576460752303423488)"
  by (simp add: float_defs)

lemma float_gt_zero_not_zero: "float_gt a (Fin 0) \<Longrightarrow> \<not> is_zero a"
  by (auto simp: float_gt_def is_zero_def fval_def)

lemma compare_prices_absent:
  "compare_prices item_code item_name current_price None source =
     Inr (Error item_code item_name current_price (u ''Price not found''))"
  by (simp add: compare_prices_def)

lemma compare_prices_present:
  "compare_prices item_code item_name current_price (Some new) source =
     Inr (if float_gt (float_abs (float_sub new current_price)) literal_0_01
          then Updated item_code item_name current_price new (float_sub new current_price)
                 (if float_gt current_price (Fin 0)
                  then float_mul (float_div (float_sub new current_price) current_price) (Fin 100)
                  else Fin 0)
                 source
          else Unchanged item_code item_name current_price source)"
  by (simp add: compare_prices_def and_then_def py_truediv_def Let_def float_gt_zero_not_zero)

lemma get_price_returns:
  "\<exists>new_price source calls. get_price P s item_name = Inr ((new_price, source), calls)"
proof (cases "extract_sku_from_name item_name")
  case (Pair description sku)
  obtain a where a: "search_justkampers P s sku = Inr a"
    using search_justkampers_returns by blast
  obtain b where b: "search_heritage P s sku = Inr b"
    using search_heritage_returns by blast
  show ?thesis
    using Pair a b by (auto simp: get_price_def and_then_def)
qed

lemma get_price_looked_up:
  "\<exists>calls. get_price P s (item_name_of item) = Inr (looked_up P s item, calls)"
proof -
  obtain new_price source calls
    where "get_price P s (item_name_of item) = Inr ((new_price, source), calls)"
    using get_price_returns by blast
  then show ?thesis by (simp add: looked_up_def)
qed

lemma process_item_eq:
  assumes "current_price_of P item = Inr old"
  shows "process_item P s item =
           and_then (compare_prices (item_code_of item) (item_name_of item) old
                       (fst (looked_up P s item)) (snd (looked_up P s item)))
             (\<lambda>out. Inr (out, update_row P out item))"
proof -
  obtain calls where "get_price P s (item_name_of item) = Inr (looked_up P s item, calls)"
    using get_price_looked_up by blast
  then show ?thesis
    using assms
    by (simp add: process_item_def and_then_def item_code_of_def item_name_of_def
        split: prod.split)
qed

lemma process_item_absent:
  assumes "current_price_of P item = Inr old" and "fst (looked_up P s item) = None"
  shows "process_item P s item =
           Inr (Error (item_code_of item) (item_name_of item) old (u ''Price not found''), item)"
  using assms
  by (simp add: process_item_eq compare_prices_absent and_then_def update_row_def)

lemma process_item_present:
  assumes "current_price_of P item = Inr old" and "looked_up P s item = (Some new, source)"
  shows "process_item P s item =
           (if float_gt (float_abs (float_sub new old)) literal_0_01
            then Inr (Updated (item_code_of item) (item_name_of item) old new (float_sub new old)
                        (if float_gt old (Fin 0)
                         then float_mul (float_div (float_sub new old) old) (Fin 100)
                         else Fin 0) source,
                      AList.update (u ''SalesUnitPrice'') (py_str P new) item)
            else Inr (Unchanged (item_code_of item) (item_name_of item) old source, item))"
  using assms
  by (simp add: process_item_eq compare_prices_present and_then_def update_row_def)

text \<open>
  C9: the comparison never divides by zero. The quotient is formed only when the price of
  the row is strictly positive, which a zero of either sign is not, and the percentage is 0
  otherwise, so the step raises nothing; when the price looked up is absent the row gives an
  error entry, which holds neither a difference nor a percentage, and the row is left as it
  was.
\<close>

theorem compare_prices_never_divides_by_zero:
  "(\<exists>out. compare_prices item_code item_name current_price new_price source = Inr out)
   \<and> compare_prices item_code item_name current_price None source =
       Inr (Error item_code item_name current_price (u ''Price not found''))
   \<and> (float_gt (float_abs (float_sub new current_price)) literal_0_01 \<longrightarrow>
        compare_prices item_code item_name current_price (Some new) source =
          Inr (Updated item_code item_name current_price new (float_sub new current_price)
                 (if float_gt current_price (Fin 0)
                  then float_mul (float_div (float_sub new current_price) current_price) (Fin 100)
                  else Fin 0)
                 source))
   \<and> (py_truediv (float_sub new current_price) current_price = Inl ZeroDivisionError
        \<longleftrightarrow> is_zero current_price)
   \<and> (float_gt current_price (Fin 0) \<longrightarrow> \<not> is_zero current_price)
   \<and> (current_price_of P item = Inr current_price \<longrightarrow>
        (\<exists>out. process_item P s item = Inr (out, update_row P out item)))
   \<and> (current_price_of P item = Inr current_price \<and> fst (looked_up P s item) = None \<longrightarrow>
        process_item P s item =
          Inr (Error (item_code_of item) (item_name_of item) current_price
                 (u ''Price not found''),
               item))"
proof -
  have a: "\<exists>out. compare_prices c n old np src = Inr out" for c n old np src
    by (cases np) (simp_all add: compare_prices_absent compare_prices_present)
  have b: "\<exists>out. process_item P s item = Inr (out, update_row P out item)"
    if "current_price_of P item = Inr current_price"
  proof -
    obtain out where "compare_prices (item_code_of item) (item_name_of item) current_price
                       (fst (looked_up P s item)) (snd (looked_up P s item)) = Inr out"
      using a by blast
    then show ?thesis
      by (simp add: process_item_eq [OF that] and_then_def)
  qed
  show ?thesis
    using a b
    by (simp add: compare_prices_absent compare_prices_present py_truediv_def
        process_item_absent float_gt_zero_not_zero)
qed

theorem compare_prices_never_divides_by_zero_witness:
  "compare_prices (u ''J21066'') (u ''Brake Caliper J21066'') (Fin 0) None (u ''JustKampers'') =
     Inr (Error (u ''J21066'') (u ''Brake Caliper J21066'') (Fin 0) (u ''Price not found''))
   \<and> compare_prices (u ''J21066'') (u ''Brake Caliper J21066'') (Fin 0) (Some (Fin 15))
        (u ''JustKampers'') =
     Inr (Updated (u ''J21066'') (u ''Brake Caliper J21066'') (Fin 0) (Fin 15) (Fin 15) (Fin 0)
            (u ''JustKampers''))
   \<and> py_truediv (Fin 15) (Fin 0) = Inl ZeroDivisionError
   \<and> py_truediv (Fin 15) NegZero = Inl ZeroDivisionError
   \<and> current_price_of decimal_builtins
        [(u ''ItemCode'', u ''J21066''), (u ''ItemName'', u ''Brake Caliper J21066''),
         (u ''SalesUnitPrice'', u ''0'')] = Inr (Fin 0)
   \<and> fst (looked_up decimal_builtins broken_session
        [(u ''ItemCode'', u ''J21066''), (u ''ItemName'', u ''Brake Caliper J21066''),
         (u ''SalesUnitPrice'', u ''0'')]) = None
   \<and> process_item decimal_builtins broken_session
        [(u ''ItemCode'', u ''J21066''), (u ''ItemName'', u ''Brake Caliper J21066''),
         (u ''SalesUnitPrice'', u ''0'')] =
       Inr (Error (u ''J21066'') (u ''Brake Caliper J21066'') (Fin 0) (u ''Price not found''),
            [(u ''ItemCode'', u ''J21066''), (u ''ItemName'', u ''Brake Caliper J21066''),
             (u ''SalesUnitPrice'', u ''0'')])"
proof -
  let ?item = "[(u ''ItemCode'', u ''J21066''), (u ''ItemName'', u ''Brake Caliper J21066''),
                (u ''SalesUnitPrice'', u ''0'')]"
  have h1: "current_price_of decimal_builtins ?item = Inr (Fin 0)"
    by (simp add: string_defs float_defs builtin_defs batch_defs)
  have h2: "fst (looked_up decimal_builtins broken_session ?item) = None"
    by (simp add: string_defs builtin_defs browser_defs jk_defs he_defs batch_defs)
  have n: "item_code_of ?item = u ''J21066''" "item_name_of ?item = u ''Brake Caliper J21066''"
    by (simp_all add: string_defs batch_defs)
  have d: "float_sub (Fin 15) (Fin 0) = Fin 15"
    "float_gt (float_abs (Fin 15)) literal_0_01"
    by (simp_all add: float_defs)
  show ?thesis
    using h1 h2 n d
      compare_prices_never_divides_by_zero
        [of "u ''J21066''" "u ''Brake Caliper J21066''" "Fin 0" None "u ''JustKampers''" "Fin 15"
            decimal_builtins ?item broken_session]
    by (simp add: py_truediv_def is_zero_def float_gt_def fval_def)
qed

text \<open>
  C4, as the program has it: a row whose old price and new price are both present is an
  update exactly when the difference of the two floats, as the float subtraction rounds it,
  is in magnitude strictly greater than the float \<open>0.01\<close>, and is unchanged otherwise; it is
  never an error. The float \<open>0.01\<close> is the double nearest to one hundredth, which lies just
  above it. A float difference equal to that double leaves the row unchanged, one equal
  to the double \<open>0.0101\<close> updates it. The test is on the floats, not on the decimal numbers
  the prices write.
\<close>

theorem process_item_threshold:
  assumes "current_price_of P item = Inr old"
      and "looked_up P s item = (Some new, source)"
  shows "\<exists>out. process_item P s item = Inr (out, update_row P out item)
           \<and> (is_updated out \<longleftrightarrow> float_gt (float_abs (float_sub new old)) literal_0_01)
           \<and> (is_unchanged out \<longleftrightarrow> \<not> float_gt (float_abs (float_sub new old)) literal_0_01)
           \<and> \<not> is_error out
           \<and> literal_0_01 = Fin (5764607523034235 / 576460752303423488)
           \<and> (float_abs (float_sub new old) = literal_0_01 \<longrightarrow> is_unchanged out)
           \<and> (float_abs (float_sub new old) = Fin (5822253598264577 / 576460752303423488)
                \<longrightarrow> is_updated out)"
proof -
  let ?d = "float_abs (float_sub new old)"
  have irrefl: "\<not> float_gt literal_0_01 literal_0_01"
    by (simp add: float_gt_def)
  have above: "float_gt (Fin (5822253598264577 / 576460752303423488)) literal_0_01"
    by (simp add: literal_0_01_value float_gt_def fval_def)
  have lit: "literal_0_01 = Fin (5764607523034235 / 576460752303423488)"
    by (rule literal_0_01_value)
  show ?thesis
  proof (cases "float_gt ?d literal_0_01")
    case True
    then have "process_item P s item =
        Inr (Updated (item_code_of item) (item_name_of item) old new (float_sub new old)
               (if float_gt old (Fin 0)
                then float_mul (float_div (float_sub new old) old) (Fin 100)
                else Fin 0) source,
             AList.update (u ''SalesUnitPrice'') (py_str P new) item)"
      using process_item_present [OF assms] by simp
    then show ?thesis
      using True irrefl lit
      by (auto simp: is_updated_def is_unchanged_def is_error_def update_row_def)
  next
    case False
    then have "process_item P s item =
        Inr (Unchanged (item_code_of item) (item_name_of item) old source, item)"
      using process_item_present [OF assms] by simp
    then show ?thesis
      using False above lit
      by (auto simp: is_updated_def is_unchanged_def is_error_def update_row_def)
  qed
qed

theorem process_item_threshold_witness:
  "current_price_of decimal_builtins
     [(u ''ItemCode'', u ''A1002''), (u ''ItemName'', u ''Rear Light Lens A1002''),
      (u ''SalesUnitPrice'', u ''12.50'')] = Inr (Fin (25 / 2))
   \<and> looked_up decimal_builtins (result_page [he_entry (u ''A1002'') (u ''12.51'') []])
        [(u ''ItemCode'', u ''A1002''), (u ''ItemName'', u ''Rear Light Lens A1002''),
         (u ''SalesUnitPrice'', u ''12.50'')] =
       (Some (Fin (7042503917300613 / 562949953421312)), u ''Heritage Parts Centre'')
   \<and> float_sub (Fin (7042503917300613 / 562949953421312)) (Fin (25 / 2)) =
       Fin (5629499534213 / 562949953421312)
   \<and> process_item decimal_builtins (result_page [he_entry (u ''A1002'') (u ''12.51'') []])
        [(u ''ItemCode'', u ''A1002''), (u ''ItemName'', u ''Rear Light Lens A1002''),
         (u ''SalesUnitPrice'', u ''12.50'')] =
       Inr (Unchanged (u ''A1002'') (u ''Rear Light Lens A1002'') (Fin (25 / 2))
              (u ''Heritage Parts Centre''),
            [(u ''ItemCode'', u ''A1002''), (u ''ItemName'', u ''Rear Light Lens A1002''),
             (u ''SalesUnitPrice'', u ''12.50'')])
   \<and> looked_up decimal_builtins (result_page [he_entry (u ''A1002'') (u ''15.00'') []])
        [(u ''ItemCode'', u ''A1002''), (u ''ItemName'', u ''Rear Light Lens A1002''),
         (u ''SalesUnitPrice'', u ''12.50'')] = (Some (Fin 15), u ''Heritage Parts Centre'')
   \<and> process_item decimal_builtins (result_page [he_entry (u ''A1002'') (u ''15.00'') []])
        [(u ''ItemCode'', u ''A1002''), (u ''ItemName'', u ''Rear Light Lens A1002''),
         (u ''SalesUnitPrice'', u ''12.50'')] =
       Inr (Updated (u ''A1002'') (u ''Rear Light Lens A1002'') (Fin (25 / 2)) (Fin 15)
              (Fin (5 / 2)) (Fin 20) (u ''Heritage Parts Centre''),
            [(u ''ItemCode'', u ''A1002''), (u ''ItemName'', u ''Rear Light Lens A1002''),
             (u ''SalesUnitPrice'', u ''15.0'')])
   \<and> current_price_of decimal_builtins
        [(u ''ItemCode'', u ''A1002''), (u ''ItemName'', u ''Rear Light Lens A1002''),
         (u ''SalesUnitPrice'', u ''0'')] = Inr (Fin 0)
   \<and> looked_up decimal_builtins (result_page [he_entry (u ''A1002'') (u ''0.01'') []])
        [(u ''ItemCode'', u ''A1002''), (u ''ItemName'', u ''Rear Light Lens A1002''),
         (u ''SalesUnitPrice'', u ''0'')] = (Some literal_0_01, u ''Heritage Parts Centre'')
   \<and> float_abs (float_sub literal_0_01 (Fin 0)) = literal_0_01
   \<and> process_item decimal_builtins (result_page [he_entry (u ''A1002'') (u ''0.01'') []])
        [(u ''ItemCode'', u ''A1002''), (u ''ItemName'', u ''Rear Light Lens A1002''),
         (u ''SalesUnitPrice'', u ''0'')] =
       Inr (Unchanged (u ''A1002'') (u ''Rear Light Lens A1002'') (Fin 0)
              (u ''Heritage Parts Centre''),
            [(u ''ItemCode'', u ''A1002''), (u ''ItemName'', u ''Rear Light Lens A1002''),
             (u ''SalesUnitPrice'', u ''0'')])"
proof -
  let ?item = "[(u ''ItemCode'', u ''A1002''), (u ''ItemName'', u ''Rear Light Lens A1002''),
                (u ''SalesUnitPrice'', u ''12.50'')]"
  let ?zrow = "[(u ''ItemCode'', u ''A1002''), (u ''ItemName'', u ''Rear Light Lens A1002''),
                 (u ''SalesUnitPrice'', u ''0'')]"
  let ?page = "result_page [he_entry (u ''A1002'') (u ''0.01'') []]"
  let ?s1 = "result_page [he_entry (u ''A1002'') (u ''12.51'') []]"
  let ?s2 = "result_page [he_entry (u ''A1002'') (u ''15.00'') []]"
  have h0: "current_price_of decimal_builtins ?item = Inr (Fin (25 / 2))"
    by (simp add: string_defs float_defs builtin_defs batch_defs)
  have h1: "looked_up decimal_builtins ?s1 ?item =
      (Some (Fin (7042503917300613 / 562949953421312)), u ''Heritage Parts Centre'')"
    by (simp add: string_defs float_defs builtin_defs browser_defs he_defs batch_defs)
  have h2: "looked_up decimal_builtins ?s2 ?item = (Some (Fin 15), u ''Heritage Parts Centre'')"
    by (simp add: string_defs float_defs builtin_defs browser_defs he_defs batch_defs)
  have d1: "float_sub (Fin (7042503917300613 / 562949953421312)) (Fin (25 / 2)) =
      Fin (5629499534213 / 562949953421312)"
    by (simp add: float_defs)
  have e1: "process_item decimal_builtins ?s1 ?item =
       Inr (Unchanged (u ''A1002'') (u ''Rear Light Lens A1002'') (Fin (25 / 2))
              (u ''Heritage Parts Centre''), ?item)"
    by (simp add: string_defs float_defs builtin_defs browser_defs he_defs batch_defs)
  have e2: "process_item decimal_builtins ?s2 ?item =
       Inr (Updated (u ''A1002'') (u ''Rear Light Lens A1002'') (Fin (25 / 2)) (Fin 15)
              (Fin (5 / 2)) (Fin 20) (u ''Heritage Parts Centre''),
            [(u ''ItemCode'', u ''A1002''), (u ''ItemName'', u ''Rear Light Lens A1002''),
             (u ''SalesUnitPrice'', u ''15.0'')])"
    by (simp add: string_defs float_defs builtin_defs browser_defs he_defs batch_defs)
  have g0: "current_price_of decimal_builtins ?zrow = Inr (Fin 0)"
    by (simp add: string_defs float_defs builtin_defs batch_defs)
  have g1: "looked_up decimal_builtins ?page ?zrow =
      (Some literal_0_01, u ''Heritage Parts Centre'')"
    by (simp add: string_defs float_defs builtin_defs browser_defs he_defs batch_defs)
  have g2: "float_abs (float_sub literal_0_01 (Fin 0)) = literal_0_01"
    by (simp add: float_defs)
  obtain out where g3: "process_item decimal_builtins ?page ?zrow =
      Inr (out, update_row decimal_builtins out ?zrow)" "is_unchanged out"
    using process_item_threshold [OF g0 g1] g2 by blast
  have e0: "process_item decimal_builtins ?page ?zrow =
       Inr (Unchanged (u ''A1002'') (u ''Rear Light Lens A1002'') (Fin 0)
              (u ''Heritage Parts Centre''), ?zrow)"
    by (simp add: string_defs float_defs builtin_defs browser_defs he_defs batch_defs)
  show ?thesis
    using h0 h1 h2 d1 e1 e2 g0 g1 g2 e0
      process_item_threshold [OF h0 h1] process_item_threshold [OF h0 h2]
    by simp
qed

theorem threshold_on_floats_counterexample:
  "decimal_value (u ''1.01'') - decimal_value (u ''1.00'') = 1 / 100
   \<and> current_price_of decimal_builtins
        [(u ''ItemCode'', u ''A1002''), (u ''ItemName'', u ''Rear Light Lens A1002''),
         (u ''SalesUnitPrice'', u ''1.00'')] = Inr (Fin 1)
   \<and> looked_up decimal_builtins (result_page [he_entry (u ''A1002'') (u ''1.01'') []])
        [(u ''ItemCode'', u ''A1002''), (u ''ItemName'', u ''Rear Light Lens A1002''),
         (u ''SalesUnitPrice'', u ''1.00'')] =
       (Some (Fin (4548635623644201 / 4503599627370496)), u ''Heritage Parts Centre'')
   \<and> float_sub (Fin (4548635623644201 / 4503599627370496)) (Fin 1) =
       Fin (45035996273705 / 4503599627370496)
   \<and> float_gt (Fin (45035996273705 / 4503599627370496)) literal_0_01
   \<and> (\<exists>row. process_item decimal_builtins
                (result_page [he_entry (u ''A1002'') (u ''1.01'') []])
                [(u ''ItemCode'', u ''A1002''), (u ''ItemName'', u ''Rear Light Lens A1002''),
                 (u ''SalesUnitPrice'', u ''1.00'')] =
              Inr (Updated (u ''A1002'') (u ''Rear Light Lens A1002'') (Fin 1)
                     (Fin (4548635623644201 / 4503599627370496))
                     (Fin (45035996273705 / 4503599627370496))
                     (Fin (1125899906842625 / 1125899906842624))
                     (u ''Heritage Parts Centre''), row))
   \<and> decimal_value (u ''12.51'') - decimal_value (u ''12.50'') = 1 / 100
   \<and> process_item decimal_builtins (result_page [he_entry (u ''A1002'') (u ''12.51'') []])
        [(u ''ItemCode'', u ''A1002''), (u ''ItemName'', u ''Rear Light Lens A1002''),
         (u ''SalesUnitPrice'', u ''12.50'')] =
       Inr (Unchanged (u ''A1002'') (u ''Rear Light Lens A1002'') (Fin (25 / 2))
              (u ''Heritage Parts Centre''),
            [(u ''ItemCode'', u ''A1002''), (u ''ItemName'', u ''Rear Light Lens A1002''),
             (u ''SalesUnitPrice'', u ''12.50'')])"
proof -
  let ?item = "[(u ''ItemCode'', u ''A1002''), (u ''ItemName'', u ''Rear Light Lens A1002''),
                (u ''SalesUnitPrice'', u ''1.00'')]"
  let ?s = "result_page [he_entry (u ''A1002'') (u ''1.01'') []]"
  let ?new = "Fin (4548635623644201 / 4503599627370496)"
  have v: "decimal_value (u ''1.01'') - decimal_value (u ''1.00'') = 1 / 100"
    "decimal_value (u ''12.51'') - decimal_value (u ''12.50'') = 1 / 100"
    by (simp_all add: string_defs builtin_defs)
  have h0: "current_price_of decimal_builtins ?item = Inr (Fin 1)"
    by (simp add: string_defs float_defs builtin_defs batch_defs)
  have h1: "looked_up decimal_builtins ?s ?item = (Some ?new, u ''Heritage Parts Centre'')"
    by (simp add: string_defs float_defs builtin_defs browser_defs he_defs batch_defs)
  have d: "float_sub ?new (Fin 1) = Fin (45035996273705 / 4503599627370496)"
    by (simp add: float_defs)
  have g: "float_gt (Fin (45035996273705 / 4503599627370496)) literal_0_01"
    by (simp add: float_defs)
  have q: "float_mul (float_div (Fin (45035996273705 / 4503599627370496)) (Fin 1)) (Fin 100) =
      Fin (1125899906842625 / 1125899906842624)"
    by (simp add: float_defs)
  have a: "float_abs (Fin (45035996273705 / 4503599627370496)) =
      Fin (45035996273705 / 4503599627370496)"
    "float_gt (Fin 1) (Fin 0)"
    by (simp_all add: float_abs_def float_gt_def fval_def)
  have n: "item_code_of ?item = u ''A1002''" "item_name_of ?item = u ''Rear Light Lens A1002''"
    by (simp_all add: string_defs batch_defs)
  have e: "process_item decimal_builtins ?s ?item =
      Inr (Updated (u ''A1002'') (u ''Rear Light Lens A1002'') (Fin 1) ?new
             (Fin (45035996273705 / 4503599627370496))
             (Fin (1125899906842625 / 1125899906842624))
             (u ''Heritage Parts Centre''),
           AList.update (u ''SalesUnitPrice'') (py_str decimal_builtins ?new) ?item)"
    using process_item_present [OF h0 h1] by (simp only: d a g q n if_True)
  have e2: "process_item decimal_builtins (result_page [he_entry (u ''A1002'') (u ''12.51'') []])
        [(u ''ItemCode'', u ''A1002''), (u ''ItemName'', u ''Rear Light Lens A1002''),
         (u ''SalesUnitPrice'', u ''12.50'')] =
       Inr (Unchanged (u ''A1002'') (u ''Rear Light Lens A1002'') (Fin (25 / 2))
              (u ''Heritage Parts Centre''),
            [(u ''ItemCode'', u ''A1002''), (u ''ItemName'', u ''Rear Light Lens A1002''),
             (u ''SalesUnitPrice'', u ''12.50'')])"
    by (simp add: string_defs float_defs builtin_defs browser_defs he_defs batch_defs)
  show ?thesis
    using v h0 h1 d g e e2 by blast
qed

section \<open>The loop over the rows\<close>

lemma process_item_returns:
  assumes "current_price_of P item = Inr old"
  shows "\<exists>out. process_item P s item = Inr (out, update_row P out item)
           \<and> (fst (looked_up P s item) = None \<longrightarrow> is_error out)
           \<and> (is_updated out \<longrightarrow> fst (looked_up P s item) \<noteq> None)"
proof (cases "fst (looked_up P s item)")
  case None
  then show ?thesis
    using process_item_absent [OF assms, of s]
    by (simp add: is_error_def update_row_def is_updated_def)
next
  case (Some new)
  then have "looked_up P s item = (Some new, snd (looked_up P s item))"
    by (metis prod.collapse)
  from process_item_present [OF assms this] Some show ?thesis
    by (simp add: update_row_def)
qed

lemma process_items_returns:
  assumes "\<forall>item \<in> set items. \<exists>old. current_price_of P item = Inr old"
  shows "\<exists>rs. process_items P world i items = Inr rs
           \<and> length rs = length items
           \<and> (\<forall>k < length items.
                 process_item P (world (i + k)) (items ! k) = Inr (rs ! k))"
  using assms
proof (induction items arbitrary: i)
  case Nil
  then show ?case by simp
next
  case (Cons item items)
  obtain old where "current_price_of P item = Inr old"
    using Cons.prems by auto
  then obtain out where r: "process_item P (world i) item = Inr (out, update_row P out item)"
    using process_item_returns by blast
  obtain rs where rs: "process_items P world (Suc i) items = Inr rs"
      "length rs = length items"
      "\<forall>k < length items. process_item P (world (Suc i + k)) (items ! k) = Inr (rs ! k)"
    using Cons.IH [of "Suc i"] Cons.prems by auto
  have "process_items P world i (item # items) = Inr ((out, update_row P out item) # rs)"
    using r rs(1) by (simp add: and_then_def)
  moreover have "\<forall>k < length (item # items).
      process_item P (world (i + k)) ((item # items) ! k) = Inr (((out, update_row P out item) # rs) ! k)"
  proof (intro allI impI)
    fix k assume k: "k < length (item # items)"
    show "process_item P (world (i + k)) ((item # items) ! k) = Inr (((out, update_row P out item) # rs) ! k)"
    proof (cases k)
      case 0
      then show ?thesis using r by simp
    next
      case (Suc j)
      then show ?thesis using rs(3) k by simp
    qed
  qed
  ultimately show ?case using rs(2) by simp
qed




section \<open>The table written\<close>

lemma update_length:
  "k \<in> set (map fst al) \<Longrightarrow> length (AList.update k v al) = length al"
  by (metis length_map update_keys)

lemma update_nth:
  "k \<in> set (map fst al) \<Longrightarrow> distinct (map fst al) \<Longrightarrow> j < length al \<Longrightarrow>
     AList.update k v al ! j = (if fst (al ! j) = k then (k, v) else al ! j)"
proof (induction al arbitrary: j)
  case Nil
  then show ?case by simp
next
  case (Cons a al)
  show ?case
  proof (cases "fst a = k")
    case True
    then have "k \<notin> set (map fst al)" using Cons.prems(2) by auto
    then have "\<forall>i < length al. fst (al ! i) \<noteq> k" by (metis length_map nth_map nth_mem)
    then show ?thesis using True Cons.prems(3) by (cases j) auto
  next
    case False
    then have k: "k \<in> set (map fst al)" using Cons.prems(1) by auto
    show ?thesis
    proof (cases j)
      case 0
      then show ?thesis using False by simp
    next
      case (Suc i)
      then have "i < length al" using Cons.prems(3) by simp
      then show ?thesis using Cons.IH [OF k _ \<open>i < length al\<close>] Cons.prems(2) False Suc by simp
    qed
  qed
qed

lemma dict_get_distinct:
  "distinct (map fst item) \<Longrightarrow> map (\<lambda>k. dict_get item k []) (map fst item) = map snd item"
  by (induction item) (auto simp: dict_get_def map_of_eq_None_iff image_iff split: option.splits)

lemma dict_to_list_cells:
  assumes "map fst item = header" and "distinct header"
  shows "dict_to_list header item = Inr (map snd item)"
  using assms dict_get_distinct [of item] by (auto simp: dict_to_list_def)

lemma write_rows_cells:
  assumes "\<forall>item \<in> set rows. map fst item = header" and "distinct header"
  shows "write_rows header rows = Inr (map (map snd) rows)"
  using assms
  by (induction rows) (simp_all add: dict_to_list_cells and_then_def)

lemma update_row_keys:
  "(u ''SalesUnitPrice'') \<in> set (map fst item) \<Longrightarrow> map fst (update_row P out item) = map fst item"
  by (cases out) (simp_all add: update_row_def update_keys)

lemma update_row_not_updated:
  "\<not> is_updated out \<Longrightarrow> update_row P out item = item"
  by (cases out) (simp_all add: update_row_def is_updated_def)

lemma update_row_cells:
  assumes "(u ''SalesUnitPrice'') \<in> set (map fst item)" and "distinct (map fst item)"
      and "j < length item" and "fst (item ! j) \<noteq> (u ''SalesUnitPrice'')"
  shows "map snd (update_row P out item) ! j = map snd item ! j"
proof (cases "is_updated out")
  case False
  then show ?thesis by (simp add: update_row_not_updated)
next
  case True
  then obtain c n old new d p src where out: "out = Updated c n old new d p src"
    by (cases out) (simp_all add: is_updated_def)
  have "length (AList.update (u ''SalesUnitPrice'') (py_str P new) item) = length item"
       "AList.update (u ''SalesUnitPrice'') (py_str P new) item ! j = item ! j"
    using update_nth [OF assms(1,2,3), of "py_str P new"] assms(4)
      update_length [OF assms(1), of "py_str P new"] by simp_all
  then show ?thesis using assms(3) out by (simp add: update_row_def)
qed

lemma update_row_price_cell:
  assumes "(u ''SalesUnitPrice'') \<in> set (map fst item)" and "distinct (map fst item)"
      and "j < length item" and "fst (item ! j) = (u ''SalesUnitPrice'')"
  shows "map snd (update_row P (Updated c n old new d p src) item) ! j = py_str P new"
  using update_nth [OF assms(1,2,3), of "py_str P new"] assms(3,4)
    update_length [OF assms(1), of "py_str P new"]
  by (simp add: update_row_def)

lemma process_items_rows:
  assumes "\<forall>item \<in> set items. \<exists>old. current_price_of P item = Inr old"
  shows "\<exists>rs. process_items P world i items = Inr rs
           \<and> length rs = length items
           \<and> (\<forall>k < length items. snd (rs ! k) = update_row P (fst (rs ! k)) (items ! k))"
proof -
  obtain rs where rs: "process_items P world i items = Inr rs" "length rs = length items"
    "\<forall>k < length items. process_item P (world (i + k)) (items ! k) = Inr (rs ! k)"
    using process_items_returns [OF assms] by blast
  have "snd (rs ! k) = update_row P (fst (rs ! k)) (items ! k)" if k: "k < length items" for k
  proof -
    obtain old where "current_price_of P (items ! k) = Inr old"
      using assms k by (meson nth_mem)
    then obtain out where
      "process_item P (world (i + k)) (items ! k) = Inr (out, update_row P out (items ! k))"
      using process_item_returns by blast
    then show ?thesis using rs(3) k by simp
  qed
  then show ?thesis using rs(1,2) by blast
qed

lemma update_new_key:
  "k \<notin> set (map fst al) \<Longrightarrow> AList.update k v al = al @ [(k, v)]"
  by (induction al) auto

lemma zip_dict_fold:
  "distinct (map fst acc @ map fst kvs) \<Longrightarrow>
     foldl (\<lambda>d (k, v). AList.update k v d) acc kvs = acc @ kvs"
proof (induction kvs arbitrary: acc)
  case Nil
  then show ?case by simp
next
  case (Cons kv kvs)
  obtain k v where kv: "kv = (k, v)" by (cases kv)
  have "k \<notin> set (map fst acc)" using Cons.prems kv by auto
  then have "AList.update k v acc = acc @ [(k, v)]" by (rule update_new_key)
  moreover have "distinct (map fst (acc @ [(k, v)]) @ map fst kvs)"
    using Cons.prems kv by auto
  ultimately show ?case using Cons.IH [of "acc @ [(k, v)]"] kv by simp
qed

lemma zip_dict_distinct:
  assumes "distinct fieldnames" and "length cells = length fieldnames"
  shows "zip_dict fieldnames cells = zip fieldnames cells"
  using zip_dict_fold [of "[]" "zip fieldnames cells"] assms
  by (simp add: zip_dict_def)

lemma read_table_rows:
  assumes "csv_reader input_text = Inr (fieldnames # records)"
      and "distinct fieldnames"
      and "\<forall>r \<in> set records. r \<noteq> [] \<longrightarrow> length r = length fieldnames"
  shows "read_table input_text =
           Inr (Some (map (zip fieldnames) (filter (\<lambda>r. r \<noteq> []) records)))"
proof -
  have "list_all (\<lambda>r. length r = length fieldnames) (filter (\<lambda>r. r \<noteq> []) records)"
    using assms(3) by (simp add: list_all_iff)
  moreover have "map (zip_dict fieldnames) (filter (\<lambda>r. r \<noteq> []) records) =
      map (zip fieldnames) (filter (\<lambda>r. r \<noteq> []) records)"
    using assms(2,3) by (simp add: zip_dict_distinct)
  ultimately show ?thesis
    using assms(1) by (simp add: read_table_def and_then_def dict_reader_def)
qed

lemma process_table_rows:
  assumes "items \<noteq> []"
      and "\<forall>item \<in> set items. map fst item = header"
      and "distinct header"
      and "u ''SalesUnitPrice'' \<in> set header"
      and "\<forall>item \<in> set items. \<exists>old. current_price_of P item = Inr old"
  shows "\<exists>rs res. process_items P world 1 items = Inr rs
           \<and> process_table P world items = Inr res
           \<and> output_text res = csv_text (output_table res)
           \<and> updates res = filter is_updated (map fst rs)
           \<and> errors res = filter is_error (map fst rs)
           \<and> unchanged res = filter is_unchanged (map fst rs)
           \<and> hd (output_table res) = header
           \<and> length (output_table res) = Suc (length items)
           \<and> (\<forall>k < length items.
                 length (output_table res ! Suc k) = length header
                 \<and> (\<not> is_updated (fst (rs ! k)) \<longrightarrow>
                      output_table res ! Suc k = map snd (items ! k))
                 \<and> (\<forall>j < length header. header ! j \<noteq> u ''SalesUnitPrice'' \<longrightarrow>
                      output_table res ! Suc k ! j = map snd (items ! k) ! j))"
proof -
  obtain rs where rs: "process_items P world 1 items = Inr rs" "length rs = length items"
    "\<forall>k < length items. snd (rs ! k) = update_row P (fst (rs ! k)) (items ! k)"
    using process_items_rows [OF assms(5)] by blast
  let ?rows = "map snd rs"
  have keys_in: "map fst (items ! k) = header" if "k < length items" for k
    using assms(2) that by simp
  have keys_out: "map fst (snd (rs ! k)) = header" if k: "k < length items" for k
    using rs(3) k keys_in [OF k] assms(4) by (simp add: update_row_keys)
  have all_keys: "\<forall>item \<in> set ?rows. map fst item = header"
  proof
    fix item assume "item \<in> set ?rows"
    then obtain k where "k < length rs" "item = snd (rs ! k)"
      by (auto simp: in_set_conv_nth)
    then show "map fst item = header" using keys_out rs(2) by simp
  qed
  have ne: "?rows \<noteq> []" using assms(1) rs(2) by auto
  then obtain first rest where fr: "?rows = first # rest" by (cases ?rows) auto
  then have "first \<in> set ?rows" by simp
  then have first: "map fst first = header" using all_keys by blast
  have w: "write_rows header ?rows = Inr (map (map snd) ?rows)"
    using write_rows_cells [OF all_keys assms(3)] .
  define res where "res = \<lparr> output_table = header # map (map snd) ?rows,
               output_text = csv_text (header # map (map snd) ?rows),
               updates = filter is_updated (map fst rs),
               errors = filter is_error (map fst rs),
               unchanged = filter is_unchanged (map fst rs) \<rparr>"
  have ex: "process_table P world items = Inr res"
    using rs(1) fr first w
    by (simp add: process_table_def and_then_def res_def Let_def)
  have tab: "output_table res = header # map (map snd) ?rows" by (simp add: res_def)
  have line: "output_table res ! Suc k = map snd (snd (rs ! k))" if "k < length items" for k
    using tab that rs(2) by simp
  have per_row:
    "length (output_table res ! Suc k) = length header
     \<and> (\<not> is_updated (fst (rs ! k)) \<longrightarrow> output_table res ! Suc k = map snd (items ! k))
     \<and> (\<forall>j < length header. header ! j \<noteq> u ''SalesUnitPrice'' \<longrightarrow>
           output_table res ! Suc k ! j = map snd (items ! k) ! j)"
    if k: "k < length items" for k
  proof -
    have l: "length (output_table res ! Suc k) = length header"
      using line [OF k] keys_out [OF k] by (metis length_map)
    have u: "\<not> is_updated (fst (rs ! k)) \<longrightarrow> output_table res ! Suc k = map snd (items ! k)"
      using line [OF k] rs(3) k by (simp add: update_row_not_updated)
    have c: "output_table res ! Suc k ! j = map snd (items ! k) ! j"
      if j: "j < length header" and nj: "header ! j \<noteq> u ''SalesUnitPrice''" for j
    proof -
      have len: "j < length (items ! k)" using keys_in [OF k] j by (metis length_map)
      have "fst (items ! k ! j) = header ! j"
        using keys_in [OF k] len by (metis nth_map)
      then have "fst (items ! k ! j) \<noteq> u ''SalesUnitPrice''" using nj by simp
      then have "map snd (update_row P (fst (rs ! k)) (items ! k)) ! j = map snd (items ! k) ! j"
        using update_row_cells [of "items ! k" j P "fst (rs ! k)"] keys_in [OF k] assms(3,4) len
        by simp
      then show ?thesis using line [OF k] rs(3) k by simp
    qed
    show ?thesis using l u c by blast
  qed
  have "hd (output_table res) = header" "length (output_table res) = Suc (length items)"
    "output_text res = csv_text (output_table res)"
    "updates res = filter is_updated (map fst rs)"
    "errors res = filter is_error (map fst rs)"
    "unchanged res = filter is_unchanged (map fst rs)"
    using rs(2) by (simp_all add: res_def)
  then show ?thesis using rs(1) ex per_row by blast
qed

text \<open>
  C8, as the program has it. Let the input file parse into a header of distinct column
  names, \<open>SalesUnitPrice\<close> among them, and at least one record that is not a blank line,
  each with as many cells as the header, and let every price cell be a text that \<open>float\<close>
  accepts. Then the batch returns, and the first output file holds the same header and one
  record for each record read, in the order read; the record of a row that is not an update
  holds the cells read, and in every record every cell outside the column \<open>SalesUnitPrice\<close>
  is the cell read. The identity is of the cells as \<open>csv.reader\<close> gives them: the text of
  the file is what \<open>csv.writer\<close> writes for these cells, not the text that was read.
\<close>

theorem batch_preserves_table:
  assumes "csv_reader input_text = Inr (header # records)"
      and "distinct header"
      and "u ''SalesUnitPrice'' \<in> set header"
      and "rows = filter (\<lambda>r. r \<noteq> []) records"
      and "rows \<noteq> []"
      and "\<forall>r \<in> set rows. length r = length header"
      and "\<forall>r \<in> set rows. \<exists>old. current_price_of P (zip header r) = Inr old"
  shows "\<exists>rs res. process_items P world 1 (map (zip header) rows) = Inr rs
           \<and> process_xero_export P world input_text = Some (Inr res)
           \<and> output_text res = csv_text (output_table res)
           \<and> updates res = filter is_updated (map fst rs)
           \<and> errors res = filter is_error (map fst rs)
           \<and> unchanged res = filter is_unchanged (map fst rs)
           \<and> hd (output_table res) = header
           \<and> length (output_table res) = Suc (length rows)
           \<and> (\<forall>k < length rows.
                 length (output_table res ! Suc k) = length header
                 \<and> (\<not> is_updated (fst (rs ! k)) \<longrightarrow> output_table res ! Suc k = rows ! k)
                 \<and> (\<forall>j < length header. header ! j \<noteq> u ''SalesUnitPrice'' \<longrightarrow>
                      output_table res ! Suc k ! j = rows ! k ! j))"
proof -
  let ?items = "map (zip header) rows"
  have ragged: "\<forall>r \<in> set records. r \<noteq> [] \<longrightarrow> length r = length header"
    using assms(4,6) by simp
  have rd: "read_table input_text = Inr (Some ?items)"
    using read_table_rows [OF assms(1,2) ragged] assms(4) by simp
  have ex: "process_xero_export P world input_text = Some (process_table P world ?items)"
    using rd by (simp add: process_xero_export_def)
  have h1: "?items \<noteq> []" using assms(5) by simp
  have h2: "\<forall>item \<in> set ?items. map fst item = header"
    using assms(6) by auto
  have h5: "\<forall>item \<in> set ?items. \<exists>old. current_price_of P item = Inr old"
    using assms(7) by auto
  have cells: "map snd (?items ! k) = rows ! k" if "k < length rows" for k
    using assms(6) that by simp
  obtain rs res where r: "process_items P world 1 ?items = Inr rs"
      "process_table P world ?items = Inr res"
      "output_text res = csv_text (output_table res)"
      "updates res = filter is_updated (map fst rs)"
      "errors res = filter is_error (map fst rs)"
      "unchanged res = filter is_unchanged (map fst rs)"
      "hd (output_table res) = header"
      "length (output_table res) = Suc (length ?items)"
      "\<forall>k < length ?items.
          length (output_table res ! Suc k) = length header
          \<and> (\<not> is_updated (fst (rs ! k)) \<longrightarrow>
               output_table res ! Suc k = map snd (?items ! k))
          \<and> (\<forall>j < length header. header ! j \<noteq> u ''SalesUnitPrice'' \<longrightarrow>
               output_table res ! Suc k ! j = map snd (?items ! k) ! j)"
    using process_table_rows [OF h1 h2 assms(2,3) h5, of world] by blast
  have per_row: "\<forall>k < length rows.
          length (output_table res ! Suc k) = length header
          \<and> (\<not> is_updated (fst (rs ! k)) \<longrightarrow> output_table res ! Suc k = rows ! k)
          \<and> (\<forall>j < length header. header ! j \<noteq> u ''SalesUnitPrice'' \<longrightarrow>
               output_table res ! Suc k ! j = rows ! k ! j)"
  proof (intro allI impI)
    fix k assume k: "k < length rows"
    then have "k < length ?items" by simp
    then show "length (output_table res ! Suc k) = length header
          \<and> (\<not> is_updated (fst (rs ! k)) \<longrightarrow> output_table res ! Suc k = rows ! k)
          \<and> (\<forall>j < length header. header ! j \<noteq> u ''SalesUnitPrice'' \<longrightarrow>
               output_table res ! Suc k ! j = rows ! k ! j)"
      using r(9) cells [OF k] by metis
  qed
  have "length (output_table res) = Suc (length rows)" using r(8) by simp
  then show ?thesis
    using r(1,3,4,5,6,7) ex r(2) per_row by auto
qed

theorem batch_preserves_table_witness:
  "csv_reader
     ([0xFEFF] @ u ''ItemCode,ItemName,SalesUnitPrice'' @ crlf
      @ u ''J21066,Brake Caliper J21066,0'' @ crlf
      @ u ''A1002,'' @ quoted (u ''Rear Light Lens A1002'') @ u '',12.50'' @ crlf) =
     Inr [[u ''ItemCode'', u ''ItemName'', u ''SalesUnitPrice''],
          [u ''J21066'', u ''Brake Caliper J21066'', u ''0''],
          [u ''A1002'', u ''Rear Light Lens A1002'', u ''12.50'']]
   \<and> distinct [u ''ItemCode'', u ''ItemName'', u ''SalesUnitPrice'']
   \<and> process_xero_export decimal_builtins
        (\<lambda>i. if i = 1 then broken_session
              else result_page [he_entry (u ''A1002'') (u ''15.00'') []])
        ([0xFEFF] @ u ''ItemCode,ItemName,SalesUnitPrice'' @ crlf
         @ u ''J21066,Brake Caliper J21066,0'' @ crlf
         @ u ''A1002,'' @ quoted (u ''Rear Light Lens A1002'') @ u '',12.50'' @ crlf) =
       Some (Inr \<lparr> output_table =
               [[u ''ItemCode'', u ''ItemName'', u ''SalesUnitPrice''],
                [u ''J21066'', u ''Brake Caliper J21066'', u ''0''],
                [u ''A1002'', u ''Rear Light Lens A1002'', u ''15.0'']],
             output_text =
               u ''ItemCode,ItemName,SalesUnitPrice'' @ crlf
               @ u ''J21066,Brake Caliper J21066,0'' @ crlf
               @ u ''A1002,Rear Light Lens A1002,15.0'' @ crlf,
             updates =
               [Updated (u ''A1002'') (u ''Rear Light Lens A1002'') (Fin (25 / 2)) (Fin 15)
                  (Fin (5 / 2)) (Fin 20) (u ''Heritage Parts Centre'')],
             errors =
               [Error (u ''J21066'') (u ''Brake Caliper J21066'') (Fin 0)
                  (u ''Price not found'')],
             unchanged = [] \<rparr>)"
proof -
  let ?text = "[0xFEFF] @ u ''ItemCode,ItemName,SalesUnitPrice'' @ crlf
      @ u ''J21066,Brake Caliper J21066,0'' @ crlf
      @ u ''A1002,'' @ quoted (u ''Rear Light Lens A1002'') @ u '',12.50'' @ crlf"
  let ?header = "[u ''ItemCode'', u ''ItemName'', u ''SalesUnitPrice'']"
  let ?r1 = "[u ''J21066'', u ''Brake Caliper J21066'', u ''0'']"
  let ?r2 = "[u ''A1002'', u ''Rear Light Lens A1002'', u ''12.50'']"
  let ?world = "\<lambda>i::nat. if i = 1 then broken_session
                  else result_page [he_entry (u ''A1002'') (u ''15.00'') []]"
  have h1: "csv_reader ?text = Inr (?header # [?r1, ?r2])"
    by (simp add: string_defs browser_defs file_defs)
  have h2: "distinct ?header" by (simp add: u_def)
  have h3: "u ''SalesUnitPrice'' \<in> set ?header" by simp
  have h4: "[?r1, ?r2] = filter (\<lambda>r. r \<noteq> []) [?r1, ?r2]" by simp
  have h5: "[?r1, ?r2] \<noteq> []" by simp
  have h6: "\<forall>r \<in> set [?r1, ?r2]. length r = length ?header" by simp
  have p1: "current_price_of decimal_builtins (zip ?header ?r1) = Inr (Fin 0)"
    by (simp add: string_defs float_defs builtin_defs batch_defs)
  have p2: "current_price_of decimal_builtins (zip ?header ?r2) = Inr (Fin (25 / 2))"
    by (simp add: string_defs float_defs builtin_defs batch_defs)
  have h7: "\<forall>r \<in> set [?r1, ?r2]. \<exists>old. current_price_of decimal_builtins (zip ?header r) = Inr old"
  proof
    fix r assume "r \<in> set [?r1, ?r2]"
    then consider "r = ?r1" | "r = ?r2" by auto
    then show "\<exists>old. current_price_of decimal_builtins (zip ?header r) = Inr old"
      using p1 p2 by cases blast+
  qed
  obtain rs res where r:
    "process_xero_export decimal_builtins ?world ?text = Some (Inr res)"
    "output_text res = csv_text (output_table res)"
    "hd (output_table res) = ?header"
    using batch_preserves_table [OF h1 h2 h3 h4 h5 h6 h7, of ?world] by blast
  have e: "process_xero_export decimal_builtins ?world ?text =
       Some (Inr \<lparr> output_table = [?header, ?r1,
                [u ''A1002'', u ''Rear Light Lens A1002'', u ''15.0'']],
             output_text =
               u ''ItemCode,ItemName,SalesUnitPrice'' @ crlf
               @ u ''J21066,Brake Caliper J21066,0'' @ crlf
               @ u ''A1002,Rear Light Lens A1002,15.0'' @ crlf,
             updates =
               [Updated (u ''A1002'') (u ''Rear Light Lens A1002'') (Fin (25 / 2)) (Fin 15)
                  (Fin (5 / 2)) (Fin 20) (u ''Heritage Parts Centre'')],
             errors =
               [Error (u ''J21066'') (u ''Brake Caliper J21066'') (Fin 0)
                  (u ''Price not found'')],
             unchanged = [] \<rparr>)"
    by (simp add: string_defs float_defs builtin_defs browser_defs jk_defs he_defs batch_defs
          file_defs)
  show ?thesis
    using h1 h2 r e by simp
qed

theorem output_file_rewritten_counterexample:
  "process_xero_export decimal_builtins (\<lambda>i. broken_session)
     (u ''ItemCode,ItemName,SalesUnitPrice'' @ crlf
      @ u ''A1,'' @ quoted (u ''Gas'' @ crlf @ u ''ket'') @ u '',5.00'' @ crlf) =
     Some (Inr \<lparr> output_table =
             [[u ''ItemCode'', u ''ItemName'', u ''SalesUnitPrice''],
              [u ''A1'', u ''Gas'' @ [0x0A] @ u ''ket'', u ''5.00'']],
           output_text =
             u ''ItemCode,ItemName,SalesUnitPrice'' @ crlf
             @ u ''A1,'' @ quoted (u ''Gas'' @ [0x0A] @ u ''ket'') @ u '',5.00'' @ crlf,
           updates = [],
           errors = [Error (u ''A1'') (u ''Gas'' @ [0x0A] @ u ''ket'') (Fin 5)
                       (u ''Price not found'')],
           unchanged = [] \<rparr>)
   \<and> u ''ItemCode,ItemName,SalesUnitPrice'' @ crlf
       @ u ''A1,'' @ quoted (u ''Gas'' @ [0x0A] @ u ''ket'') @ u '',5.00'' @ crlf
     \<noteq> u ''ItemCode,ItemName,SalesUnitPrice'' @ crlf
       @ u ''A1,'' @ quoted (u ''Gas'' @ crlf @ u ''ket'') @ u '',5.00'' @ crlf
   \<and> process_xero_export decimal_builtins (\<lambda>i. broken_session)
     ([0xFEFF] @ u ''ItemCode,ItemName,SalesUnitPrice'' @ [0x0A]
      @ quoted (u ''A1'') @ u '','' @ quoted (u ''Gasket'') @ u '',5.00'' @ [0x0A]) =
     Some (Inr \<lparr> output_table =
             [[u ''ItemCode'', u ''ItemName'', u ''SalesUnitPrice''],
              [u ''A1'', u ''Gasket'', u ''5.00'']],
           output_text =
             u ''ItemCode,ItemName,SalesUnitPrice'' @ crlf @ u ''A1,Gasket,5.00'' @ crlf,
           updates = [],
           errors = [Error (u ''A1'') (u ''Gasket'') (Fin 5) (u ''Price not found'')],
           unchanged = [] \<rparr>)
   \<and> process_xero_export decimal_builtins (\<lambda>i. broken_session)
     (u ''ItemName,ItemName,SalesUnitPrice'' @ crlf @ u ''Gasket,Seal,5.00'' @ crlf) =
     Some (Inr \<lparr> output_table =
             [[u ''ItemName'', u ''SalesUnitPrice''], [u ''Seal'', u ''5.00'']],
           output_text = u ''ItemName,SalesUnitPrice'' @ crlf @ u ''Seal,5.00'' @ crlf,
           updates = [],
           errors = [Error [] (u ''Seal'') (Fin 5) (u ''Price not found'')],
           unchanged = [] \<rparr>)
   \<and> process_xero_export decimal_builtins (\<lambda>i. broken_session)
     (u ''ItemCode,ItemName,SalesUnitPrice'' @ crlf) = Some (Inl IndexError)
   \<and> process_xero_export decimal_builtins (\<lambda>i. broken_session)
     (u ''ItemCode,ItemName,SalesUnitPrice'' @ crlf @ u ''A1,Gasket,n/a'' @ crlf) =
     Some (Inl ValueError)"
  by (simp add: string_defs float_defs builtin_defs browser_defs jk_defs he_defs batch_defs
        file_defs)

section \<open>Matching an entry of the result list\<close>

lemma startswith_iff: "startswith s p \<longleftrightarrow> (\<exists>b. s = p @ b)"
  unfolding startswith_def
  by (metis append_eq_conv_conj append_take_drop_id)

lemma contains_iff: "contains s p \<longleftrightarrow> (\<exists>a b. s = a @ p @ b)"
proof (induction s)
  case Nil
  then show ?case by simp
next
  case (Cons c s)
  show ?case
  proof
    assume "contains (c # s) p"
    then consider "startswith (c # s) p" | "contains s p" by auto
    then show "\<exists>a b. c # s = a @ p @ b"
    proof cases
      case 1
      then obtain b where "c # s = p @ b" using startswith_iff by blast
      then have "c # s = [] @ p @ b" by simp
      then show ?thesis by blast
    next
      case 2
      then obtain a b where "s = a @ p @ b" using Cons.IH by blast
      then have "c # s = (c # a) @ p @ b" by simp
      then show ?thesis by blast
    qed
  next
    assume "\<exists>a b. c # s = a @ p @ b"
    then obtain a b where ab: "c # s = a @ p @ b" by blast
    show "contains (c # s) p"
    proof (cases a)
      case Nil
      then have "startswith (c # s) p" using ab startswith_iff by auto
      then show ?thesis by simp
    next
      case (Cons d a')
      then have "s = a' @ p @ b" using ab by simp
      then have "contains s p" using Cons.IH by blast
      then show ?thesis by simp
    qed
  qed
qed

lemma filter_dropWhile_absorb:
  "(\<And>x. Q x \<Longrightarrow> \<not> P x) \<Longrightarrow> filter P (dropWhile Q xs) = filter P xs"
  by (induction xs) auto

lemma he_normalize_spec: "he_normalize P s = spec_normalize P s"
proof -
  have "(\<lambda>x. x \<noteq> 0x2F \<and> x \<noteq> 0x20) = (\<lambda>c::nat. c \<noteq> 0x20 \<and> c \<noteq> 0x2F)"
    by auto
  then show ?thesis
    by (simp add: he_normalize_def spec_normalize_def remove_char_def)
qed

lemma spec_normalize_rstrip_slash: "spec_normalize P (rstrip_slash s) = spec_normalize P s"
proof -
  let ?P = "\<lambda>c::nat. c \<noteq> 0x20 \<and> c \<noteq> 0x2F"
  have "filter ?P (dropWhile (\<lambda>c. c = 0x2F) (rev s)) = filter ?P (rev s)"
    by (rule filter_dropWhile_absorb) simp
  then have "filter ?P (rev (dropWhile (\<lambda>c. c = 0x2F) (rev s))) = filter ?P s"
    by (metis rev_filter rev_rev_ident)
  then show ?thesis
    by (simp add: spec_normalize_def rstrip_slash_def rstrip_chars_def)
qed

lemma he_sku_matches_spec:
  "he_sku_matches P product_sku sku \<longleftrightarrow>
     spec_normalize P product_sku = spec_normalize P (strip sku)"
  by (simp add: he_sku_matches_def he_normalize_spec he_search_sku_def
      spec_normalize_rstrip_slash)

lemma he_candidate_matches_iff:
  "he_candidate_matches P sku p \<longleftrightarrow>
     spec_normalize P (he_displayed_sku p) = spec_normalize P (strip sku)
     \<or> (he_displayed_sku p = []
        \<and> (\<exists>title. he_title p = Inr title \<and> contains title (he_search_sku sku)))"
proof (cases "he_displayed_sku p = []")
  case False
  then show ?thesis
    by (simp add: he_candidate_matches_def he_product_sku_def he_displayed_sku_def
        he_sku_matches_spec Let_def)
next
  case True
  have self: "he_sku_matches P (he_search_sku sku) sku"
    by (simp add: he_sku_matches_def)
  show ?thesis
  proof (cases "he_title p")
    case (Inl e)
    then show ?thesis
      using True
      by (simp add: he_candidate_matches_def he_product_sku_def he_displayed_sku_def
          he_sku_matches_spec Let_def)
  next
    case (Inr title)
    then show ?thesis
      using True self
      by (simp add: he_candidate_matches_def he_product_sku_def he_displayed_sku_def
          he_sku_matches_spec Let_def)
  qed
qed

lemma jk_loop_skip:
  "\<not> jk_candidate_matches P sku q \<Longrightarrow>
     jk_products_loop P sku (q # qs) = jk_products_loop P sku qs"
  by (cases "jk_product_sku q")
     (simp_all add: jk_candidate_matches_def jk_check_product_def and_then_def)

lemma jk_loop_prefix:
  "\<forall>q \<in> set ps. \<not> jk_candidate_matches P sku q \<Longrightarrow>
     jk_products_loop P sku (ps @ rest) = jk_products_loop P sku rest"
  by (induction ps) (simp_all add: jk_loop_skip del: jk_products_loop.simps)

lemma jk_loop_match:
  "jk_candidate_matches P sku p \<Longrightarrow> jk_extract_price P p = Inr r \<Longrightarrow>
     jk_products_loop P sku (p # qs) = r"
  by (cases "jk_product_sku p")
     (simp_all add: jk_candidate_matches_def jk_check_product_def and_then_def)

lemma he_loop_skip:
  "\<not> he_candidate_matches P sku q \<Longrightarrow>
     he_products_loop P sku (q # qs) = he_products_loop P sku qs"
  by (simp add: he_candidate_matches_def he_check_product_def Let_def)

lemma he_loop_prefix:
  "\<forall>q \<in> set ps. \<not> he_candidate_matches P sku q \<Longrightarrow>
     he_products_loop P sku (ps @ rest) = he_products_loop P sku rest"
  by (induction ps) (simp_all add: he_loop_skip del: he_products_loop.simps)

lemma he_loop_match:
  "he_candidate_matches P sku p \<Longrightarrow> he_extract_price P p = Inr (Some price) \<Longrightarrow>
     he_products_loop P sku (p # qs) = Some price"
  by (simp add: he_candidate_matches_def he_check_product_def Let_def)

lemma search_justkampers_products:
  assumes "start_driver s = Inr ()" and "driver_get s (jk_search_url sku) = Inr ()"
      and "find_products s ''div.product-item'' = Inr products"
  shows "search_justkampers P s sku = Inr (jk_products_loop P sku products)"
  using assms
  by (cases products)
     (simp_all add: search_justkampers_def search_justkampers_body_def and_then_def
       jk_search_url_def Let_def)

lemma search_justkampers_no_match:
  assumes "find_products s ''div.product-item'' = Inr products"
      and "\<forall>q \<in> set products. \<not> jk_candidate_matches P sku q"
  shows "search_justkampers P s sku = Inr None"
proof -
  have "jk_products_loop P sku (products @ []) = None"
    using jk_loop_prefix [OF assms(2), of "[]"] by simp
  then show ?thesis
    using assms(1)
    by (simp add: search_justkampers_def search_justkampers_body_def and_then_def Let_def
        split: sum.splits)
qed

lemma search_heritage_products:
  assumes "start_driver s = Inr ()" and "driver_get s (he_search_url sku) = Inr ()"
      and "wait_products_grid s = Inr ()" and "he_find_products s = Inr products"
  shows "search_heritage P s sku = Inr (he_products_loop P sku products)"
  using assms
  by (simp add: search_heritage_def search_heritage_body_def and_then_def
       he_search_url_def Let_def)

lemma search_heritage_no_match:
  assumes "he_find_products s = Inr products"
      and "\<forall>q \<in> set products. \<not> he_candidate_matches P sku q"
  shows "search_heritage P s sku = Inr None"
proof -
  have "he_products_loop P sku (products @ []) = None"
    using he_loop_prefix [OF assms(2), of "[]"] by simp
  then show ?thesis
    using assms(1)
    by (simp add: search_heritage_def search_heritage_body_def and_then_def Let_def
        split: sum.splits exn.splits)
qed

text \<open>
  C1, as the program has it. The Heritage adapter matches an entry exactly when the
  identifier it shows and the target, trimmed, are equal after spaces and slashes are removed
  and the rest is put in upper case, or when the entry shows no identifier and its title
  contains the target (trimmed, without its trailing slashes) as it is written. The
  JustKampers adapter matches exactly when the label of the entry and the trimmed target are
  equal in upper case: it removes neither spaces nor slashes. In both adapters the entries
  are examined in the order of the page: when an entry matches, none before it does, and the
  extraction of its price returns, what it returns is the result (for Heritage, when it
  returns a price); when no entry matches the result is absent.
\<close>

theorem identity_match:
  "(he_candidate_matches P sku p \<longleftrightarrow>
      spec_normalize P (he_displayed_sku p) = spec_normalize P (strip sku)
      \<or> (he_displayed_sku p = []
         \<and> (\<exists>title a b. he_title p = Inr title \<and> title = a @ he_search_sku sku @ b)))
   \<and> (jk_candidate_matches P sku p \<longleftrightarrow>
        (\<exists>product_sku. jk_product_sku p = Inr product_sku
           \<and> py_upper P product_sku = py_upper P (strip sku)))
   \<and> (start_driver s = Inr () \<and> driver_get s (jk_search_url sku) = Inr ()
        \<and> find_products s ''div.product-item'' = Inr (ps @ p # qs)
        \<and> (\<forall>q \<in> set ps. \<not> jk_candidate_matches P sku q)
        \<and> jk_candidate_matches P sku p \<and> jk_extract_price P p = Inr r
        \<longrightarrow> search_justkampers P s sku = Inr r)
   \<and> (find_products s ''div.product-item'' = Inr ps
        \<and> (\<forall>q \<in> set ps. \<not> jk_candidate_matches P sku q)
        \<longrightarrow> search_justkampers P s sku = Inr None)
   \<and> (start_driver s = Inr () \<and> driver_get s (he_search_url sku) = Inr ()
        \<and> wait_products_grid s = Inr () \<and> he_find_products s = Inr (ps @ p # qs)
        \<and> (\<forall>q \<in> set ps. \<not> he_candidate_matches P sku q)
        \<and> he_candidate_matches P sku p \<and> he_extract_price P p = Inr (Some price)
        \<longrightarrow> search_heritage P s sku = Inr (Some price))
   \<and> (he_find_products s = Inr ps
        \<and> (\<forall>q \<in> set ps. \<not> he_candidate_matches P sku q)
        \<longrightarrow> search_heritage P s sku = Inr None)"
proof -
  have a: "he_candidate_matches P sku p \<longleftrightarrow>
      spec_normalize P (he_displayed_sku p) = spec_normalize P (strip sku)
      \<or> (he_displayed_sku p = []
         \<and> (\<exists>title a b. he_title p = Inr title \<and> title = a @ he_search_sku sku @ b))"
    by (simp add: he_candidate_matches_iff contains_iff)
  have b: "jk_candidate_matches P sku p \<longleftrightarrow>
        (\<exists>product_sku. jk_product_sku p = Inr product_sku
           \<and> py_upper P product_sku = py_upper P (strip sku))"
    by (cases "jk_product_sku p") (simp_all add: jk_candidate_matches_def jk_sku_matches_def)
  have c: "search_justkampers P s sku = Inr r"
    if "start_driver s = Inr ()" "driver_get s (jk_search_url sku) = Inr ()"
       "find_products s ''div.product-item'' = Inr (ps @ p # qs)"
       "\<forall>q \<in> set ps. \<not> jk_candidate_matches P sku q"
       "jk_candidate_matches P sku p" "jk_extract_price P p = Inr r"
  proof -
    have "jk_products_loop P sku (ps @ p # qs) = r"
      using jk_loop_prefix [OF that(4)] jk_loop_match [OF that(5,6)] by simp
    then show ?thesis
      using search_justkampers_products [OF that(1,2,3)] by simp
  qed
  have d: "search_heritage P s sku = Inr (Some price)"
    if "start_driver s = Inr ()" "driver_get s (he_search_url sku) = Inr ()"
       "wait_products_grid s = Inr ()" "he_find_products s = Inr (ps @ p # qs)"
       "\<forall>q \<in> set ps. \<not> he_candidate_matches P sku q"
       "he_candidate_matches P sku p" "he_extract_price P p = Inr (Some price)"
  proof -
    have "he_products_loop P sku (ps @ p # qs) = Some price"
      using he_loop_prefix [OF that(5)] he_loop_match [OF that(6,7)] by simp
    then show ?thesis
      using search_heritage_products [OF that(1,2,3,4)] by simp
  qed
  have e: "search_justkampers P s sku = Inr None"
    if "find_products s ''div.product-item'' = Inr ps"
       "\<forall>q \<in> set ps. \<not> jk_candidate_matches P sku q"
    using search_justkampers_no_match [OF that] .
  have f: "search_heritage P s sku = Inr None"
    if "he_find_products s = Inr ps"
       "\<forall>q \<in> set ps. \<not> he_candidate_matches P sku q"
    using search_heritage_no_match [OF that] .
  show ?thesis
    using a b c d e f by blast
qed

theorem identity_match_witness:
  "\<not> jk_candidate_matches decimal_builtins (u ''J21066'') (jk_entry (u ''J999'') (u ''1.00''))
   \<and> jk_candidate_matches decimal_builtins (u ''J21066'') (jk_entry (u ''j21066'') (u ''19.50''))
   \<and> jk_extract_price decimal_builtins (jk_entry (u ''j21066'') (u ''19.50'')) =
       Inr (Some (Fin (39 / 2)))
   \<and> search_justkampers decimal_builtins
        (result_page [jk_entry (u ''J999'') (u ''1.00''), jk_entry (u ''j21066'') (u ''19.50''),
                      jk_entry (u ''J21066'') (u ''25.00'')]) (u ''J21066'') =
       Inr (Some (Fin (39 / 2)))
   \<and> search_justkampers decimal_builtins
        (result_page [jk_entry (u ''J999'') (u ''1.00'')]) (u ''J21066'') = Inr None
   \<and> \<not> he_candidate_matches decimal_builtins (u ''211945241A/'')
         (he_entry (u ''211 999'') (u ''1.00'') [])
   \<and> he_candidate_matches decimal_builtins (u ''211945241A/'')
        (he_entry (u ''211 945/241 a'') (u ''12.50'') [])
   \<and> he_extract_price decimal_builtins (he_entry (u ''211 945/241 a'') (u ''12.50'') []) =
       Inr (Some (Fin (25 / 2)))
   \<and> search_heritage decimal_builtins
        (result_page [he_entry (u ''211 999'') (u ''1.00'') [],
                      he_entry (u ''211 945/241 a'') (u ''12.50'') [],
                      he_entry (u ''211945241A'') (u ''30.00'') []]) (u ''211945241A/'') =
       Inr (Some (Fin (25 / 2)))
   \<and> search_heritage decimal_builtins
        (result_page [he_entry (u ''211 999'') (u ''1.00'') []]) (u ''211945241A/'') = Inr None
   \<and> he_displayed_sku (he_titled_entry (u ''Bracket 211945241A left'') (u ''8.50'')) = []
   \<and> he_candidate_matches decimal_builtins (u ''211945241A/'')
        (he_titled_entry (u ''Bracket 211945241A left'') (u ''8.50''))"
proof -
  let ?P = decimal_builtins
  let ?j1 = "jk_entry (u ''J999'') (u ''1.00'')"
  let ?j2 = "jk_entry (u ''j21066'') (u ''19.50'')"
  let ?j3 = "jk_entry (u ''J21066'') (u ''25.00'')"
  let ?h1 = "he_entry (u ''211 999'') (u ''1.00'') []"
  let ?h2 = "he_entry (u ''211 945/241 a'') (u ''12.50'') []"
  let ?h3 = "he_entry (u ''211945241A'') (u ''30.00'') []"
  let ?h4 = "he_titled_entry (u ''Bracket 211945241A left'') (u ''8.50'')"
  let ?jsku = "u ''J21066''"
  let ?hsku = "u ''211945241A/''"
  note defs = string_defs float_defs builtin_defs browser_defs jk_defs he_defs
    jk_candidate_matches_def he_candidate_matches_def jk_search_url_def he_search_url_def
    he_displayed_sku_def
  have j1: "\<not> jk_candidate_matches ?P ?jsku ?j1" by (simp add: defs)
  have j2: "jk_candidate_matches ?P ?jsku ?j2" by (simp add: defs)
  have j3: "jk_extract_price ?P ?j2 = Inr (Some (Fin (39 / 2)))" by (simp add: defs)
  have h1: "\<not> he_candidate_matches ?P ?hsku ?h1" by (simp add: defs)
  have h2: "he_candidate_matches ?P ?hsku ?h2" by (simp add: defs)
  have h3: "he_extract_price ?P ?h2 = Inr (Some (Fin (25 / 2)))" by (simp add: defs)
  have t1: "he_displayed_sku ?h4 = []" by (simp add: defs)
  have t2: "he_title ?h4 = Inr (u ''Bracket 211945241A left'')" by (simp add: defs)
  have t3: "u ''Bracket 211945241A left'' = u ''Bracket '' @ he_search_sku ?hsku @ u '' left''"
    by (simp add: defs)
  have t4: "he_candidate_matches ?P ?hsku ?h4"
    using identity_match [of ?P ?hsku ?h4] t1 t2 t3 by blast
  have js: "start_driver (result_page ([?j1] @ ?j2 # [?j3])) = Inr ()"
           "driver_get (result_page ([?j1] @ ?j2 # [?j3])) (jk_search_url ?jsku) = Inr ()"
           "find_products (result_page ([?j1] @ ?j2 # [?j3])) ''div.product-item''
              = Inr ([?j1] @ ?j2 # [?j3])"
    by (simp_all add: result_page_def)
  have hs: "start_driver (result_page ([?h1] @ ?h2 # [?h3])) = Inr ()"
           "driver_get (result_page ([?h1] @ ?h2 # [?h3])) (he_search_url ?hsku) = Inr ()"
           "wait_products_grid (result_page ([?h1] @ ?h2 # [?h3])) = Inr ()"
           "he_find_products (result_page ([?h1] @ ?h2 # [?h3])) = Inr ([?h1] @ ?h2 # [?h3])"
    by (simp_all add: result_page_def he_find_products_def and_then_def)
  have jn: "\<forall>q \<in> set [?j1]. \<not> jk_candidate_matches ?P ?jsku q" using j1 by simp
  have hn: "\<forall>q \<in> set [?h1]. \<not> he_candidate_matches ?P ?hsku q" using h1 by simp
  have jf: "search_justkampers ?P (result_page ([?j1] @ ?j2 # [?j3])) ?jsku
              = Inr (Some (Fin (39 / 2)))"
    using identity_match [of ?P ?jsku ?j2 "result_page ([?j1] @ ?j2 # [?j3])" "[?j1]" "[?j3]"
            "Some (Fin (39 / 2))" "Fin 0"] js jn j2 j3
    by blast
  have hf: "search_heritage ?P (result_page ([?h1] @ ?h2 # [?h3])) ?hsku
              = Inr (Some (Fin (25 / 2)))"
    using identity_match [of ?P ?hsku ?h2 "result_page ([?h1] @ ?h2 # [?h3])" "[?h1]" "[?h3]"
            None "Fin (25 / 2)"] hs hn h2 h3
    by blast
  have jo: "find_products (result_page [?j1]) ''div.product-item'' = Inr [?j1]"
    by (simp add: result_page_def)
  have ho: "he_find_products (result_page [?h1]) = Inr [?h1]"
    by (simp add: result_page_def he_find_products_def and_then_def)
  have jz: "search_justkampers ?P (result_page [?j1]) ?jsku = Inr None"
    using identity_match [of ?P ?jsku ?j1 "result_page [?j1]" "[?j1]" "[]" None "Fin 0"]
      jo jn by blast
  have hz: "search_heritage ?P (result_page [?h1]) ?hsku = Inr None"
    using identity_match [of ?P ?hsku ?h1 "result_page [?h1]" "[?h1]" "[]" None "Fin 0"]
      ho hn by blast
  show ?thesis
    using j1 j2 j3 jf jz h1 h2 h3 hf hz t1 t4 by simp
qed

theorem jk_match_keeps_slashes_counterexample:
  "spec_normalize decimal_builtins (u ''J12'') = spec_normalize decimal_builtins (u ''J1/2'')
   \<and> \<not> jk_sku_matches decimal_builtins (u ''J12'') (u ''J1/2'')
   \<and> \<not> jk_candidate_matches decimal_builtins (u ''J1/2'') (jk_entry (u ''J12'') (u ''5.00''))
   \<and> search_justkampers decimal_builtins (result_page [jk_entry (u ''J12'') (u ''5.00'')])
        (u ''J1/2'') = Inr None
   \<and> search_justkampers decimal_builtins (result_page [jk_entry (u ''J12'') (u ''5.00'')])
        (u ''J12'') = Inr (Some (Fin 5))
   \<and> he_displayed_sku (he_titled_entry (u ''BA12 bracket'') (u ''7.25'')) = []
   \<and> spec_normalize decimal_builtins [] \<noteq> spec_normalize decimal_builtins (strip (u ''A1''))
   \<and> he_candidate_matches decimal_builtins (u ''A1'')
        (he_titled_entry (u ''BA12 bracket'') (u ''7.25''))
   \<and> search_heritage decimal_builtins
        (result_page [he_titled_entry (u ''BA12 bracket'') (u ''7.25'')]) (u ''A1'') =
       Inr (Some (Fin (29 / 4)))"
  by (simp add: string_defs float_defs builtin_defs browser_defs jk_defs he_defs
      spec_normalize_def jk_candidate_matches_def he_candidate_matches_def
      he_displayed_sku_def)

section \<open>Prices that are not positive\<close>

lemma he_listing_price_positive:
  assumes "he_listing_price P p selector = Inr (Some price)"
  shows "float_gt price (Fin 0)"
  using assms
  by (auto simp: he_listing_price_def catch_all_def and_then_def
      split: sum.splits option.splits if_splits)

text \<open>
  C2 does not hold of the program. Only the cascade of the Heritage adapter over the result
  list tests \<open>price > 0\<close> and goes on to the next selector. The JustKampers adapter returns
  the first number it reads, and so does the product page of either adapter: a price text of
  \<open>0.00\<close> comes back as the price 0.
\<close>

theorem nonpositive_price_returned:
  "search_justkampers decimal_builtins (result_page [jk_entry (u ''J21066'') (u ''0.00'')])
     (u ''J21066'') = Inr (Some (Fin 0))
   \<and> search_heritage decimal_builtins (result_page [he_linked_entry (u ''A1002'') (u ''0.00'')])
       (u ''A1002'') = Inr (Some (Fin 0))
   \<and> search_heritage decimal_builtins
       (result_page [he_entry (u ''A1002'') (u ''0.00'') (u ''12.50'')]) (u ''A1002'') =
       Inr (Some (Fin (25 / 2)))
   \<and> \<not> float_gt (Fin 0) (Fin 0)"
  by (simp add: string_defs float_defs builtin_defs browser_defs jk_defs he_defs)

end
